theory Spec2Isabelle
  imports Complex_Main
begin

section \<open>Exceptions of the SDK (exceptions.py)\<close>

text \<open>
  Timestamps (\<^verbatim>\<open>time.time()\<close>, \<^verbatim>\<open>datetime\<close>) and the token count of the rate
  limiter are Python floats; they are modelled as real numbers of seconds. Message
  strings and the \<^verbatim>\<open>details\<close> dictionary of an error are not modelled: an error is
  its class, its \<^verbatim>\<open>code\<close> and its \<^verbatim>\<open>status\<close>.
\<close>

datatype json = JNull | JBool bool | JNum real | JStr string
  | JArr "json list" | JObj "(string \<times> json) list"

text \<open>Python truthiness of a decoded JSON value (\<^verbatim>\<open>x or default\<close>, \<^verbatim>\<open>if x:\<close>).\<close>

fun truthy :: "json \<Rightarrow> bool" where
  "truthy JNull = False"
| "truthy (JBool b) = b"
| "truthy (JNum r) = (r \<noteq> 0)"
| "truthy (JStr s) = (s \<noteq> [])"
| "truthy (JArr xs) = (xs \<noteq> [])"
| "truthy (JObj kvs) = (kvs \<noteq> [])"

datatype error_class =
    BackstageSDKError | AuthenticationError | AuthorizationError | NotFoundError
  | ValidationError | RateLimitError | ServerError | NetworkError | TimeoutError
  | ConfigurationError | WebSocketError | GraphQLError | CircuitBreakerError | RetryError

record sdk_error =
  err_class :: error_class
  code :: json
  status :: "int option"

text \<open>
  The exceptions that occur in the modelled code. \<^verbatim>\<open>httpx.TimeoutException\<close> is a
  subclass of \<^verbatim>\<open>httpx.RequestError\<close>; \<open>HttpxRequestError\<close> stands for a request error
  that is not a timeout (a connection failure).
\<close>

datatype exc =
    SDK sdk_error
  | HttpxTimeoutException
  | HttpxRequestError
  | PyTypeError
  | PyKeyError
  | PyValueError
  | PyAttributeError
  | PyZeroDivisionError
  | PyOverflowError
  | PyRuntimeError
  | PyException string

text \<open>
  The keyword arguments \<^verbatim>\<open>code\<close> and \<^verbatim>\<open>status\<close> a caller passes to an exception
  constructor; \<open>None\<close> is a keyword that is not passed.
\<close>

record kwargs =
  kw_code :: "json option"
  kw_status :: "int option"

definition no_kwargs :: kwargs where
  "no_kwargs = \<lparr>kw_code = None, kw_status = None\<rparr>"

text \<open>
  \<^verbatim>\<open>BackstageSDKError.__init__(message, code=None, status=None, details=None)\<close>:
  \<^verbatim>\<open>self.code = code or 'SDK_ERROR'\<close>.
\<close>

definition base_init :: "error_class \<Rightarrow> json option \<Rightarrow> int option \<Rightarrow> sdk_error" where
  "base_init c cd st =
     \<lparr>err_class = c,
      code = (case cd of None \<Rightarrow> JStr ''SDK_ERROR''
              | Some v \<Rightarrow> if truthy v then v else JStr ''SDK_ERROR''),
      status = st\<rparr>"

text \<open>
  The subclasses fix \<^verbatim>\<open>code\<close> (and six of them \<^verbatim>\<open>status\<close>) and forward the
  caller's keywords: \<^verbatim>\<open>super().__init__(message, code="AUTH_ERROR", status=401, **kwargs)\<close>.
  A keyword given both explicitly and in \<^verbatim>\<open>**kwargs\<close> makes the call raise
  \<^verbatim>\<open>TypeError\<close> (multiple values for a keyword argument), so a subclass cannot be
  built with \<^verbatim>\<open>code=\<close>, and one that fixes the status not with \<^verbatim>\<open>status=\<close> either.
\<close>

fun fixed_code :: "error_class \<Rightarrow> string" where
  "fixed_code BackstageSDKError = ''SDK_ERROR''"
| "fixed_code AuthenticationError = ''AUTH_ERROR''"
| "fixed_code AuthorizationError = ''AUTHORIZATION_ERROR''"
| "fixed_code NotFoundError = ''NOT_FOUND''"
| "fixed_code ValidationError = ''VALIDATION_ERROR''"
| "fixed_code RateLimitError = ''RATE_LIMIT_ERROR''"
| "fixed_code ServerError = ''SERVER_ERROR''"
| "fixed_code NetworkError = ''NETWORK_ERROR''"
| "fixed_code TimeoutError = ''TIMEOUT_ERROR''"
| "fixed_code ConfigurationError = ''CONFIG_ERROR''"
| "fixed_code WebSocketError = ''WEBSOCKET_ERROR''"
| "fixed_code GraphQLError = ''GRAPHQL_ERROR''"
| "fixed_code CircuitBreakerError = ''CIRCUIT_BREAKER_ERROR''"
| "fixed_code RetryError = ''RETRY_ERROR''"

fun fixed_status :: "error_class \<Rightarrow> int option" where
  "fixed_status AuthenticationError = Some 401"
| "fixed_status AuthorizationError = Some 403"
| "fixed_status NotFoundError = Some 404"
| "fixed_status ValidationError = Some 400"
| "fixed_status RateLimitError = Some 429"
| "fixed_status ServerError = Some 500"
| "fixed_status _ = None"

definition new_error :: "error_class \<Rightarrow> kwargs \<Rightarrow> exc + sdk_error" where
  "new_error c kw =
     (if c = BackstageSDKError then Inr (base_init c (kw_code kw) (kw_status kw))
      else if kw_code kw \<noteq> None then Inl PyTypeError
      else (case fixed_status c of
              Some st \<Rightarrow> if kw_status kw \<noteq> None then Inl PyTypeError
                         else Inr (base_init c (Some (JStr (fixed_code c))) (Some st))
            | None \<Rightarrow> Inr (base_init c (Some (JStr (fixed_code c))) (kw_status kw))))"

text \<open>The exception that \<^verbatim>\<open>raise C(message, **kw)\<close> raises.\<close>

definition raise_new :: "error_class \<Rightarrow> kwargs \<Rightarrow> exc" where
  "raise_new c kw = (case new_error c kw of Inl e \<Rightarrow> e | Inr err \<Rightarrow> SDK err)"

section \<open>The world outside the objects\<close>

text \<open>
  What \<^verbatim>\<open>httpx.AsyncClient.request\<close> delivers: a status, the body decoded by
  \<^verbatim>\<open>response.json()\<close> (\<open>None\<close> when that raises) and the body as text.
\<close>

record response =
  status_code :: int
  body :: "json option"
  body_text :: string

text \<open>
  The world holds the wall clock (\<^verbatim>\<open>time.time()\<close>, \<^verbatim>\<open>datetime.utcnow()\<close>, in
  seconds), the log of \<^verbatim>\<open>asyncio.sleep\<close> calls, and the two transports: the
  \<open>k\<close>-th call of \<^verbatim>\<open>HttpClient.client.request\<close> (of
  \<^verbatim>\<open>AuthManager._http_client.post\<close>) takes some time and then returns a response or
  raises. The counters record how many calls were made. The request itself (method,
  URL, headers, body) is not modelled. The event loop is the list of the
  \<^verbatim>\<open>_auto_refresh\<close> tasks that are pending (created, neither cancelled nor run), each
  with its identity, the time it was created at and the delay it sleeps, together with
  the fact whether the code runs inside a running event loop at all: a coroutine
  always does, a plain function such as \<^verbatim>\<open>set_tokens\<close> may be called from
  synchronous code without one.
\<close>

record timer =
  tid :: nat
  armed_at :: real
  delay :: real

record world =
  now :: real
  slept :: "real list"
  http :: "nat \<Rightarrow> real \<times> (exc + response)"
  http_calls :: nat
  auth_http :: "nat \<Rightarrow> real \<times> (exc + response)"
  auth_calls :: nat
  pending :: "timer list"
  next_tid :: nat
  loop_running :: bool

text \<open>
  \<^verbatim>\<open>await asyncio.sleep(d)\<close>: the duration is logged and the clock moves on by it (a
  delay that is not positive returns at once).
\<close>

definition sleep :: "real \<Rightarrow> world \<Rightarrow> world" where
  "sleep d w = w\<lparr>now := now w + max 0 d, slept := slept w @ [d]\<rparr>"

text \<open>
  \<^verbatim>\<open>asyncio.create_task(self._auto_refresh(delay))\<close>: without a running event loop
  it raises \<^verbatim>\<open>RuntimeError\<close> and creates nothing. \<^verbatim>\<open>task.cancel()\<close> takes the task
  out of the pending ones; on a task that is done or cancelled already it does nothing.
\<close>

definition create_task :: "real \<Rightarrow> world \<Rightarrow> (exc + nat) \<times> world" where
  "create_task d w =
     (if loop_running w
      then (Inr (next_tid w),
            w\<lparr>pending := pending w @ [\<lparr>tid = next_tid w, armed_at = now w, delay = d\<rparr>],
              next_tid := Suc (next_tid w)\<rparr>)
      else (Inl PyRuntimeError, w))"

definition cancel :: "nat \<Rightarrow> world \<Rightarrow> world" where
  "cancel t w = w\<lparr>pending := filter (\<lambda>p. tid p \<noteq> t) (pending w)\<rparr>"

definition client_request :: "world \<Rightarrow> (exc + response) \<times> world" where
  "client_request w =
     (case http w (http_calls w) of
        (d, r) \<Rightarrow> (r, w\<lparr>now := now w + d, http_calls := Suc (http_calls w)\<rparr>))"

definition auth_client_post :: "world \<Rightarrow> (exc + response) \<times> world" where
  "auth_client_post w =
     (case auth_http w (auth_calls w) of
        (d, r) \<Rightarrow> (r, w\<lparr>now := now w + d, auth_calls := Suc (auth_calls w)\<rparr>))"

section \<open>Circuit breaker (http_client.py, class CircuitBreaker)\<close>

datatype cb_state = Closed | Open | HalfOpen

record circuit_breaker =
  failure_threshold :: int
  timeout :: real
  recovery_timeout :: real
  failure_count :: int
  last_failure_time :: real
  state :: cb_state

definition circuit_breaker_init :: "int \<Rightarrow> real \<Rightarrow> real \<Rightarrow> circuit_breaker" where
  "circuit_breaker_init ft t rt =
     \<lparr>failure_threshold = ft, timeout = t, recovery_timeout = rt,
      failure_count = 0, last_failure_time = 0, state = Closed\<rparr>"

definition record_failure :: "circuit_breaker \<Rightarrow> real \<Rightarrow> circuit_breaker" where
  "record_failure cb t =
     (let cb1 = cb\<lparr>failure_count := failure_count cb + 1, last_failure_time := t\<rparr>
      in if failure_count cb1 \<ge> failure_threshold cb1 then cb1\<lparr>state := Open\<rparr> else cb1)"

definition reset :: "circuit_breaker \<Rightarrow> circuit_breaker" where
  "reset cb = cb\<lparr>failure_count := 0, state := Closed, last_failure_time := 0\<rparr>"

text \<open>
  \<^verbatim>\<open>call(func)\<close>. The guarded function runs on the caller's own objects \<open>x\<close> and on
  the world, and can see the breaker as \<^verbatim>\<open>call\<close> has left it; it returns a value
  (\<open>Inr\<close>) or raises (\<open>Inl\<close>). The result is what \<^verbatim>\<open>call\<close> returns or raises, the
  breaker, the caller's objects and the world afterwards.
\<close>

definition call ::
  "circuit_breaker \<Rightarrow> (circuit_breaker \<Rightarrow> 'x \<Rightarrow> world \<Rightarrow> (exc + 'a) \<times> 'x \<times> world)
     \<Rightarrow> 'x \<Rightarrow> world \<Rightarrow> (exc + 'a) \<times> circuit_breaker \<times> 'x \<times> world" where
  "call cb func x w =
     (if state cb = Open \<and> \<not> (now w - last_failure_time cb > timeout cb)
      then (Inl (raise_new CircuitBreakerError no_kwargs), cb, x, w)
      else
        (let cb1 = (if state cb = Open then cb\<lparr>state := HalfOpen\<rparr> else cb)
         in case func cb1 x w of
              (Inr result, x', w') \<Rightarrow>
                (Inr result, (if state cb1 = HalfOpen then reset cb1 else cb1), x', w')
            | (Inl e, x', w') \<Rightarrow>
                (Inl e, record_failure cb1 (now w'), x', w')))"



section \<open>Rate limiter (http_client.py, class RateLimiter)\<close>

record rate_limiter =
  requests_per_second :: real
  burst_size :: real
  tokens :: real
  last_update :: real

definition rate_limiter_init :: "real \<Rightarrow> real \<Rightarrow> world \<Rightarrow> rate_limiter" where
  "rate_limiter_init rps burst w =
     \<lparr>requests_per_second = rps, burst_size = burst, tokens = burst, last_update = now w\<rparr>"

text \<open>The first half of \<^verbatim>\<open>acquire\<close>: add tokens for the time elapsed, up to the burst size.\<close>

definition refill :: "rate_limiter \<Rightarrow> real \<Rightarrow> rate_limiter" where
  "refill rl t =
     (let elapsed = t - last_update rl
      in rl\<lparr>tokens := min (burst_size rl) (tokens rl + elapsed * requests_per_second rl),
            last_update := t\<rparr>)"

text \<open>
  \<^verbatim>\<open>acquire()\<close>, run by one task at a time (the lock). The division raises
  \<^verbatim>\<open>ZeroDivisionError\<close> when \<^verbatim>\<open>requests_per_second\<close> is 0.
\<close>

definition acquire :: "rate_limiter \<Rightarrow> world \<Rightarrow> (exc + unit) \<times> rate_limiter \<times> world" where
  "acquire rl w =
     (let rl1 = refill rl (now w)
      in if tokens rl1 \<ge> 1 then (Inr (), rl1\<lparr>tokens := tokens rl1 - 1\<rparr>, w)
         else if requests_per_second rl1 = 0 then (Inl PyZeroDivisionError, rl1, w)
         else (let wait_time = (1 - tokens rl1) / requests_per_second rl1
               in (Inr (), rl1\<lparr>tokens := 0\<rparr>, sleep wait_time w)))"

text \<open>
  A sequence of \<^verbatim>\<open>acquire\<close> calls, the \<open>i\<close>-th one made \<open>gaps ! i\<close> seconds after
  the one before has returned. The result lists every state of the bucket that can be
  observed: before each call, after the refill inside each call, and after the last
  call. The sequence stops at a call that raises.
\<close>

fun acquire_run :: "rate_limiter \<Rightarrow> real list \<Rightarrow> world \<Rightarrow> rate_limiter list" where
  "acquire_run rl [] w = [rl]"
| "acquire_run rl (g # gs) w =
     (let w1 = w\<lparr>now := now w + g\<rparr>
      in case acquire rl w1 of
           (Inl e, rl', w') \<Rightarrow> [rl, refill rl (now w1), rl']
         | (Inr u, rl', w') \<Rightarrow> rl # refill rl (now w1) # acquire_run rl' gs w')"

text \<open>The invariant of the bucket.\<close>

definition bucket_ok :: "rate_limiter \<Rightarrow> bool" where
  "bucket_ok rl = (0 \<le> tokens rl \<and> tokens rl \<le> burst_size rl)"

section \<open>Token store (auth_manager.py, class AuthManager)\<close>

text \<open>
  A \<^verbatim>\<open>datetime\<close> is naive (no time zone; \<^verbatim>\<open>datetime.utcnow()\<close> is naive) or aware,
  and holds its date and time as a number of seconds, counted from 1970-01-01 00:00:00.
  Comparing or subtracting a naive and an aware one raises \<^verbatim>\<open>TypeError\<close>. The dates
  run from year 1 to year 9999 and a \<^verbatim>\<open>timedelta\<close> spans at most 999999999 days;
  arithmetic that leaves these ranges raises \<^verbatim>\<open>OverflowError\<close>.
\<close>

datatype datetime = Naive real | Aware real

definition datetime_ok :: "real \<Rightarrow> bool" where
  "datetime_ok s = (- 62135596800 \<le> s \<and> s < 253402300800)"

definition timedelta_ok :: "real \<Rightarrow> bool" where
  "timedelta_ok s = (- 86399999913600 \<le> s \<and> s < 86400000000000)"

definition utcnow :: "world \<Rightarrow> datetime" where
  "utcnow w = Naive (now w)"

text \<open>\<^verbatim>\<open>d - timedelta(seconds=s)\<close>.\<close>

fun dt_minus :: "datetime \<Rightarrow> real \<Rightarrow> exc + datetime" where
  "dt_minus (Naive r) s =
     (if datetime_ok (r - s) then Inr (Naive (r - s)) else Inl PyOverflowError)"
| "dt_minus (Aware r) s =
     (if datetime_ok (r - s) then Inr (Aware (r - s)) else Inl PyOverflowError)"

text \<open>\<^verbatim>\<open>a < b\<close> and \<^verbatim>\<open>(a - b).total_seconds()\<close> on two datetimes.\<close>

fun dt_less :: "datetime \<Rightarrow> datetime \<Rightarrow> exc + bool" where
  "dt_less (Naive a) (Naive b) = Inr (a < b)"
| "dt_less (Aware a) (Aware b) = Inr (a < b)"
| "dt_less _ _ = Inl PyTypeError"

fun dt_diff :: "datetime \<Rightarrow> datetime \<Rightarrow> exc + real" where
  "dt_diff (Naive a) (Naive b) = Inr (a - b)"
| "dt_diff (Aware a) (Aware b) = Inr (a - b)"
| "dt_diff _ _ = Inl PyTypeError"

text \<open>
  The library functions the token store calls: \<^verbatim>\<open>jwt.decode\<close> without signature
  check (the payload as key-value pairs, \<open>None\<close> when it raises),
  \<^verbatim>\<open>datetime.fromtimestamp\<close> (a naive local time, \<open>None\<close> when it raises) and
  \<^verbatim>\<open>datetime.fromisoformat\<close> (\<open>None\<close> when it raises).
\<close>

record env =
  jwt_decode :: "string \<Rightarrow> (string \<times> json) list option"
  fromtimestamp :: "real \<Rightarrow> real option"
  fromisoformat :: "string \<Rightarrow> datetime option"

record token_info =
  access_token :: string
  refresh_token :: "string option"
  expires_at :: "datetime option"
  token_type :: string

text \<open>Truthiness of an \<^verbatim>\<open>Optional[str]\<close>: \<^verbatim>\<open>None\<close> and the empty string are false.\<close>

fun truthy_str :: "string option \<Rightarrow> bool" where
  "truthy_str None = False"
| "truthy_str (Some s) = (s \<noteq> [])"

text \<open>
  The manager: \<^verbatim>\<open>config.auto_refresh\<close>, the two optional callbacks (a callback
  returns, \<open>None\<close>, or raises), the stored credential and the handle of the scheduled
  refresh task.
\<close>

record auth_manager =
  auto_refresh :: bool
  on_token_refresh :: "(token_info \<Rightarrow> exc option) option"
  on_auth_error :: "(exc \<Rightarrow> exc option) option"
  token_info :: "token_info option"
  refresh_task :: "nat option"

definition extract_expiry_from_jwt :: "env \<Rightarrow> string \<Rightarrow> datetime option" where
  "extract_expiry_from_jwt en token =
     (case jwt_decode en token of
        None \<Rightarrow> None
      | Some payload \<Rightarrow>
          (case map_of payload ''exp'' of
             None \<Rightarrow> None
           | Some ex \<Rightarrow>
               if truthy ex
               then (case ex of
                       JNum r \<Rightarrow> map_option Naive (fromtimestamp en r)
                     | JBool b \<Rightarrow> map_option Naive (fromtimestamp en 1)
                     | _ \<Rightarrow> None)
               else None))"

definition get_access_token :: "auth_manager \<Rightarrow> string option" where
  "get_access_token am = map_option access_token (token_info am)"

definition get_auth_header :: "auth_manager \<Rightarrow> string option" where
  "get_auth_header am =
     (case token_info am of
        None \<Rightarrow> None
      | Some ti \<Rightarrow>
          if token_type ti = ''api_key'' then Some (access_token ti)
          else Some (''Bearer '' @ access_token ti))"

text \<open>
  \<^verbatim>\<open>_is_token_valid\<close>; the subtraction raises on an expiry in the first minute of
  year 1, the comparison on an aware expiry.
\<close>

definition is_token_valid :: "auth_manager \<Rightarrow> world \<Rightarrow> exc + bool" where
  "is_token_valid am w =
     (case token_info am of
        None \<Rightarrow> Inr False
      | Some ti \<Rightarrow>
          if token_type ti = ''api_key'' then Inr True
          else (case expires_at ti of
                  Some ex \<Rightarrow>
                    (case dt_minus ex 60 of
                       Inl e \<Rightarrow> Inl e
                     | Inr buffered \<Rightarrow> dt_less (utcnow w) buffered)
                | None \<Rightarrow> Inr True))"

text \<open>
  \<^verbatim>\<open>_schedule_refresh\<close>: five minutes before expiry, and only when that is ahead.
  The task handle is stored only if the task could be created.
\<close>

definition schedule_refresh ::
  "auth_manager \<Rightarrow> world \<Rightarrow> (exc + unit) \<times> auth_manager \<times> world" where
  "schedule_refresh am w =
     (case token_info am of
        None \<Rightarrow> (Inr (), am, w)
      | Some ti \<Rightarrow>
          (case expires_at ti of
             None \<Rightarrow> (Inr (), am, w)
           | Some ex \<Rightarrow>
               (case dt_minus ex 300 of
                  Inl e \<Rightarrow> (Inl e, am, w)
                | Inr refresh_time \<Rightarrow>
                    (case dt_diff refresh_time (utcnow w) of
                       Inl e \<Rightarrow> (Inl e, am, w)
                     | Inr d \<Rightarrow>
                         if d > 0
                         then (case create_task d w of
                                 (Inl e, w') \<Rightarrow> (Inl e, am, w')
                               | (Inr t, w') \<Rightarrow>
                                   (Inr (), am\<lparr>refresh_task := Some t\<rparr>, w'))
                         else (Inr (), am, w)))))"

definition set_tokens ::
  "auth_manager \<Rightarrow> token_info \<Rightarrow> world \<Rightarrow> (exc + unit) \<times> auth_manager \<times> world" where
  "set_tokens am ti w =
     (let am1 = am\<lparr>token_info := Some ti\<rparr>;
          (am2, w2) = (case refresh_task am1 of
                         Some t \<Rightarrow> (am1\<lparr>refresh_task := None\<rparr>, cancel t w)
                       | None \<Rightarrow> (am1, w))
      in case (if auto_refresh am2 \<and> truthy_str (refresh_token ti) \<and> expires_at ti \<noteq> None
               then schedule_refresh am2 w2 else (Inr (), am2, w2)) of
           (Inl e, am3, w3) \<Rightarrow> (Inl e, am3, w3)
         | (Inr u, am3, w3) \<Rightarrow>
             (case on_token_refresh am3 of
                None \<Rightarrow> (Inr (), am3, w3)
              | Some notify \<Rightarrow>
                  (case notify ti of
                     None \<Rightarrow> (Inr (), am3, w3)
                   | Some e \<Rightarrow> (Inl e, am3, w3))))"

definition clear_tokens :: "auth_manager \<Rightarrow> world \<Rightarrow> auth_manager \<times> world" where
  "clear_tokens am w =
     (let am1 = am\<lparr>token_info := None\<rparr>
      in case refresh_task am1 of
           Some t \<Rightarrow> (am1\<lparr>refresh_task := None\<rparr>, cancel t w)
         | None \<Rightarrow> (am1, w))"

text \<open>\<^verbatim>\<open>datetime.utcnow() + timedelta(seconds=r)\<close> at time \<open>t\<close>.\<close>

definition utcnow_plus :: "real \<Rightarrow> real \<Rightarrow> exc + datetime" where
  "utcnow_plus t r =
     (if timedelta_ok r \<and> datetime_ok (t + r) then Inr (Naive (t + r))
      else Inl PyOverflowError)"

text \<open>\<^verbatim>\<open>s.replace('Z', '+00:00')\<close>.\<close>

definition replace_Z :: "string \<Rightarrow> string" where
  "replace_Z s = concat (map (\<lambda>c. if c = CHR ''Z'' then ''+00:00'' else [c]) s)"

text \<open>
  The part of \<^verbatim>\<open>refresh_token\<close> between \<^verbatim>\<open>data = response.json()\<close> and the call of
  \<^verbatim>\<open>set_tokens\<close>: the new \<^verbatim>\<open>TokenInfo\<close> built from the response body, at time
  \<open>t\<close>, for the credential \<open>prev\<close> stored so far. A body that is not JSON, not an
  object, lacks \<^verbatim>\<open>access_token\<close>, has fields of the wrong type or an
  \<^verbatim>\<open>expires_in\<close> that leads out of the range of dates makes it raise
  (\<^verbatim>\<open>TokenInfo\<close> is a pydantic model with \<^verbatim>\<open>access_token: str\<close> and
  \<^verbatim>\<open>refresh_token: Optional[str]\<close>; its validation error is a \<^verbatim>\<open>ValueError\<close>).
  The pairs of a \<open>JObj\<close> are the items of the decoded dictionary.
\<close>

definition new_token_info :: "env \<Rightarrow> token_info \<Rightarrow> response \<Rightarrow> real \<Rightarrow> exc + token_info" where
  "new_token_info en prev resp t =
     (case body resp of
        None \<Rightarrow> Inl PyValueError
      | Some (JObj data) \<Rightarrow>
          (case map_of data ''access_token'' of
             None \<Rightarrow> Inl PyKeyError
           | Some (JStr a) \<Rightarrow>
               (case (case map_of data ''refresh_token'' of
                        None \<Rightarrow> Inr (refresh_token prev)
                      | Some JNull \<Rightarrow> Inr None
                      | Some (JStr r) \<Rightarrow> Inr (Some r)
                      | Some _ \<Rightarrow> Inl PyValueError) of
                  Inl e \<Rightarrow> Inl e
                | Inr rt \<Rightarrow>
                    (let new = \<lparr>access_token = a, refresh_token = rt, expires_at = None,
                                 token_type = ''bearer''\<rparr>
                     in case map_of data ''expires_in'' of
                          Some (JNum r) \<Rightarrow>
                            (case utcnow_plus t r of
                               Inl e \<Rightarrow> Inl e
                             | Inr d \<Rightarrow> Inr (new\<lparr>expires_at := Some d\<rparr>))
                        | Some (JBool b) \<Rightarrow>
                            (case utcnow_plus t (if b then 1 else 0) of
                               Inl e \<Rightarrow> Inl e
                             | Inr d \<Rightarrow> Inr (new\<lparr>expires_at := Some d\<rparr>))
                        | Some _ \<Rightarrow> Inl PyTypeError
                        | None \<Rightarrow>
                            (case map_of data ''expires_at'' of
                               Some (JStr s) \<Rightarrow>
                                 (case fromisoformat en (replace_Z s) of
                                    None \<Rightarrow> Inl PyValueError
                                  | Some d \<Rightarrow> Inr (new\<lparr>expires_at := Some d\<rparr>))
                             | Some _ \<Rightarrow> Inl PyAttributeError
                             | None \<Rightarrow>
                                 Inr (new\<lparr>expires_at := extract_expiry_from_jwt en a\<rparr>))))
           | Some _ \<Rightarrow> Inl PyValueError)
      | Some _ \<Rightarrow> Inl PyTypeError)"

text \<open>
  The body of the \<^verbatim>\<open>try\<close> in \<^verbatim>\<open>refresh_token\<close>. A status other than 200 raises;
  the \<^verbatim>\<open>AuthenticationError(..., status=...)\<close> written there cannot be built (the class
  fixes \<^verbatim>\<open>status\<close>), so what is raised is a \<^verbatim>\<open>TypeError\<close>, which the handler below
  turns into an \<^verbatim>\<open>AuthenticationError\<close> like every other exception.
\<close>

definition refresh_exchange ::
  "env \<Rightarrow> auth_manager \<Rightarrow> token_info \<Rightarrow> world
     \<Rightarrow> (exc + token_info) \<times> auth_manager \<times> world" where
  "refresh_exchange en am prev w =
     (case auth_client_post w of
        (Inl e, w1) \<Rightarrow> (Inl e, am, w1)
      | (Inr resp, w1) \<Rightarrow>
          if status_code resp \<noteq> 200
          then (Inl (raise_new AuthenticationError
                       \<lparr>kw_code = None, kw_status = Some (status_code resp)\<rparr>), am, w1)
          else (case new_token_info en prev resp (now w1) of
                  Inl e \<Rightarrow> (Inl e, am, w1)
                | Inr new \<Rightarrow>
                    (case set_tokens am new w1 of
                       (Inl e, am', w') \<Rightarrow> (Inl e, am', w')
                     | (Inr u, am', w') \<Rightarrow> (Inr new, am', w'))))"

text \<open>
  \<^verbatim>\<open>refresh_token()\<close>. Both handlers (\<^verbatim>\<open>except httpx.RequestError\<close>,
  \<^verbatim>\<open>except Exception\<close>) build an \<^verbatim>\<open>AuthenticationError\<close> from a message alone, tell
  \<^verbatim>\<open>on_auth_error\<close> and raise it; they differ in the message only.
\<close>

definition am_refresh_token ::
  "env \<Rightarrow> auth_manager \<Rightarrow> world \<Rightarrow> (exc + token_info) \<times> auth_manager \<times> world" where
  "am_refresh_token en am w =
     (case token_info am of
        None \<Rightarrow> (Inl (raise_new AuthenticationError no_kwargs), am, w)
      | Some prev \<Rightarrow>
          if \<not> truthy_str (refresh_token prev)
          then (Inl (raise_new AuthenticationError no_kwargs), am, w)
          else (case refresh_exchange en am prev w of
                  (Inr new, am', w') \<Rightarrow> (Inr new, am', w')
                | (Inl e, am', w') \<Rightarrow>
                    (let error = raise_new AuthenticationError no_kwargs
                     in case on_auth_error am' of
                          None \<Rightarrow> (Inl error, am', w')
                        | Some notify \<Rightarrow>
                            (case notify error of
                               None \<Rightarrow> (Inl error, am', w')
                             | Some e' \<Rightarrow> (Inl e', am', w')))))"

definition ensure_valid_token ::
  "env \<Rightarrow> auth_manager \<Rightarrow> world \<Rightarrow> (exc + string) \<times> auth_manager \<times> world" where
  "ensure_valid_token en am w =
     (case token_info am of
        None \<Rightarrow> (Inl (raise_new AuthenticationError no_kwargs), am, w)
      | Some ti \<Rightarrow>
          (case is_token_valid am w of
             Inl e \<Rightarrow> (Inl e, am, w)
           | Inr True \<Rightarrow> (Inr (access_token ti), am, w)
           | Inr False \<Rightarrow>
               if truthy_str (refresh_token ti) \<and> auto_refresh am
               then (case am_refresh_token en am w of
                       (Inl e, am', w') \<Rightarrow> (Inl e, am', w')
                     | (Inr refreshed, am', w') \<Rightarrow> (Inr (access_token refreshed), am', w'))
               else (Inl (raise_new AuthenticationError no_kwargs), am, w)))"

text \<open>
  \<^verbatim>\<open>_auto_refresh(delay)\<close>, the scheduled task. When its sleep ends the task is no
  longer pending and the clock has reached the time it was created at plus its delay;
  then it runs \<^verbatim>\<open>refresh_token\<close> and hands an exception to \<^verbatim>\<open>on_auth_error\<close>.
\<close>

definition wake :: "timer \<Rightarrow> world \<Rightarrow> world" where
  "wake tm w =
     w\<lparr>now := max (now w) (armed_at tm + delay tm),
       pending := filter (\<lambda>p. tid p \<noteq> tid tm) (pending w)\<rparr>"

definition auto_refresh_task ::
  "env \<Rightarrow> auth_manager \<Rightarrow> timer \<Rightarrow> world \<Rightarrow> (exc + unit) \<times> auth_manager \<times> world" where
  "auto_refresh_task en am tm w =
     (case am_refresh_token en am (wake tm w) of
        (Inr new, am', w') \<Rightarrow> (Inr (), am', w')
      | (Inl e, am', w') \<Rightarrow>
          (case on_auth_error am' of
             None \<Rightarrow> (Inr (), am', w')
           | Some notify \<Rightarrow>
               (case notify e of
                  None \<Rightarrow> (Inr (), am', w')
                | Some e' \<Rightarrow> (Inl e', am', w'))))"

text \<open>
  The pending refresh tasks are accounted for: each is the one the manager holds the
  handle of, and task identities are not reused.
\<close>

definition timers_ok :: "auth_manager \<Rightarrow> world \<Rightarrow> bool" where
  "timers_ok am w =
     (list_all (\<lambda>p. refresh_task am = Some (tid p) \<and> tid p < next_tid w) (pending w)
      \<and> distinct (map tid (pending w)))"

section \<open>Error classifier (exceptions.py)\<close>

text \<open>The dictionary \<^verbatim>\<open>error_map\<close> of \<^verbatim>\<open>create_error_from_response\<close>.\<close>

definition error_map :: "int \<Rightarrow> error_class option" where
  "error_map st =
     (if st = 400 then Some ValidationError
      else if st = 401 then Some AuthenticationError
      else if st = 403 then Some AuthorizationError
      else if st = 404 then Some NotFoundError
      else if st = 429 then Some RateLimitError
      else if st = 500 then Some ServerError
      else if st = 502 then Some ServerError
      else if st = 503 then Some ServerError
      else if st = 504 then Some TimeoutError
      else None)"

text \<open>
  \<^verbatim>\<open>create_error_from_response(response_data, status)\<close>: the class is looked up and
  then called with \<^verbatim>\<open>code=\<close> and \<^verbatim>\<open>status=\<close>, so the function returns an error
  or raises. \<^verbatim>\<open>response_data.get\<close> exists on a dictionary only.
\<close>

definition create_error_from_response :: "json \<Rightarrow> int \<Rightarrow> exc + sdk_error" where
  "create_error_from_response response_data st =
     (case response_data of
        JObj d \<Rightarrow>
          (let cd = (case map_of d ''error'' of None \<Rightarrow> JStr ''API_ERROR'' | Some c \<Rightarrow> c);
               error_class = (case error_map st of Some c \<Rightarrow> c | None \<Rightarrow> BackstageSDKError)
           in new_error error_class \<lparr>kw_code = Some cd, kw_status = Some st\<rparr>)
      | _ \<Rightarrow> Inl PyAttributeError)"

text \<open>
  \<^verbatim>\<open>is_retryable_error\<close>. Membership in the set of codes hashes the code, which
  raises on a list or a dictionary. None of the other exceptions modelled here is a
  built-in \<^verbatim>\<open>ConnectionError\<close> (and \<^verbatim>\<open>TimeoutError\<close> names the SDK's class).
\<close>

definition retryable_codes :: "string set" where
  "retryable_codes = {''SERVER_ERROR'', ''TIMEOUT_ERROR'', ''NETWORK_ERROR'',
                      ''CIRCUIT_BREAKER_ERROR''}"

definition is_retryable_error :: "exc \<Rightarrow> exc + bool" where
  "is_retryable_error error =
     (case error of
        SDK err \<Rightarrow>
          (case code err of
             JArr xs \<Rightarrow> Inl PyTypeError
           | JObj kvs \<Rightarrow> Inl PyTypeError
           | JStr c \<Rightarrow>
               Inr (c \<in> retryable_codes
                    \<or> (case status err of None \<Rightarrow> False | Some st \<Rightarrow> st \<noteq> 0 \<and> st \<ge> 500))
           | _ \<Rightarrow>
               Inr (case status err of None \<Rightarrow> False | Some st \<Rightarrow> st \<noteq> 0 \<and> st \<ge> 500))
      | _ \<Rightarrow> Inr False)"

section \<open>Request executor (http_client.py, class HttpClient)\<close>

text \<open>What a request returns: the decoded JSON body, or the body as text.\<close>

datatype reply = Json json | Text string

record http_client =
  retries :: "int option"
  retry_delay :: "real option"
  circuit_breaker :: circuit_breaker
  rate_limiter :: "rate_limiter option"
  auth_manager :: "auth_manager option"

text \<open>
  \<^verbatim>\<open>_execute_request\<close>. The two \<^verbatim>\<open>except\<close> clauses at its end see what the first
  transport call raises; the refresh and the second transport call are inside a
  \<^verbatim>\<open>try\<close> of their own that swallows every exception.
\<close>

definition refresh_and_retry ::
  "env \<Rightarrow> auth_manager \<Rightarrow> response \<Rightarrow> world \<Rightarrow> response \<times> auth_manager \<times> world" where
  "refresh_and_retry en am resp w =
     (case am_refresh_token en am w of
        (Inl e, am', w') \<Rightarrow> (resp, am', w')
      | (Inr tok, am', w') \<Rightarrow>
          (case client_request w' of
             (Inl e, w'') \<Rightarrow> (resp, am', w'')
           | (Inr resp', w'') \<Rightarrow> (resp', am', w'')))"

definition check_response :: "response \<Rightarrow> exc + reply" where
  "check_response resp =
     (if status_code resp \<ge> 400
      then (let error_data = (case body resp of
                                Some j \<Rightarrow> j
                              | None \<Rightarrow> JObj [(''error'', JStr ''HTTP_ERROR'')])
            in case create_error_from_response error_data (status_code resp) of
                 Inl e \<Rightarrow> Inl e
               | Inr err \<Rightarrow> Inl (SDK err))
      else if status_code resp = 204 then Inr (Json (JObj []))
      else (case body resp of
              Some j \<Rightarrow> Inr (Json j)
            | None \<Rightarrow> Inr (Text (body_text resp))))"

definition execute_request ::
  "env \<Rightarrow> auth_manager option \<Rightarrow> world \<Rightarrow> (exc + reply) \<times> auth_manager option \<times> world" where
  "execute_request en am w =
     (case client_request w of
        (Inl e, w1) \<Rightarrow>
          (if e = HttpxTimeoutException then (Inl (raise_new TimeoutError no_kwargs), am, w1)
           else if e = HttpxRequestError then (Inl (raise_new NetworkError no_kwargs), am, w1)
           else (Inl e, am, w1))
      | (Inr resp, w1) \<Rightarrow>
          (case (case am of
                   Some a \<Rightarrow>
                     if status_code resp = 401
                     then (case refresh_and_retry en a resp w1 of
                             (resp', a', w') \<Rightarrow> (resp', Some a', w'))
                     else (resp, am, w1)
                 | None \<Rightarrow> (resp, am, w1)) of
             (resp2, am2, w2) \<Rightarrow> (check_response resp2, am2, w2)))"

text \<open>
  The retry decorator of \<^verbatim>\<open>request\<close>, from the tenacity library as documented:
  \<^verbatim>\<open>stop_after_attempt(n)\<close> stops once the attempt number has reached \<open>n\<close>;
  \<^verbatim>\<open>wait_exponential(multiplier, max=30)\<close> waits \<open>multiplier * 2 ^ (attempt - 1)\<close>
  seconds after the attempt with that number, at least 0 and at most 30;
  \<^verbatim>\<open>retry_if_exception_type((httpx.RequestError, httpx.TimeoutException))\<close> retries
  on these exceptions only; with \<^verbatim>\<open>reraise=True\<close> the last exception is raised as it
  is when the attempts are used up.
\<close>

definition wait_exponential :: "real \<Rightarrow> int \<Rightarrow> real" where
  "wait_exponential multiplier attempt_number =
     max 0 (min (multiplier * 2 ^ nat (attempt_number - 1)) 30)"

definition retry_if_exception_type :: "exc \<Rightarrow> bool" where
  "retry_if_exception_type e = (e = HttpxRequestError \<or> e = HttpxTimeoutException)"

function make_request ::
  "env \<Rightarrow> int \<Rightarrow> real \<Rightarrow> int \<Rightarrow> circuit_breaker \<Rightarrow> auth_manager option \<Rightarrow> world
     \<Rightarrow> (exc + reply) \<times> circuit_breaker \<times> auth_manager option \<times> world" where
  "make_request en n multiplier attempt cb am w =
     (case call cb (\<lambda>cb1. execute_request en) am w of
        (Inr result, cb', am', w') \<Rightarrow> (Inr result, cb', am', w')
      | (Inl e, cb', am', w') \<Rightarrow>
          if retry_if_exception_type e \<and> attempt < n
          then make_request en n multiplier (attempt + 1) cb' am'
                 (sleep (wait_exponential multiplier attempt) w')
          else (Inl e, cb', am', w'))"
  by pat_completeness auto
termination
  by (relation "measure (\<lambda>(en, n, multiplier, attempt, cb, am, w). nat (n - attempt))") auto

declare make_request.simps [simp del]

definition transform_error :: "exc \<Rightarrow> exc" where
  "transform_error error =
     (case error of
        SDK err \<Rightarrow> SDK err
      | HttpxTimeoutException \<Rightarrow> raise_new TimeoutError no_kwargs
      | HttpxRequestError \<Rightarrow> raise_new NetworkError no_kwargs
      | _ \<Rightarrow> raise_new BackstageSDKError no_kwargs)"

text \<open>
  \<^verbatim>\<open>request\<close>: the rate limiter (outside the \<^verbatim>\<open>try\<close>), then the retried call
  through the breaker, and every exception transformed to an SDK error.
  \<^verbatim>\<open>self.config.retries or 3\<close> and \<^verbatim>\<open>self.config.retry_delay or 1.0\<close> replace
  \<^verbatim>\<open>None\<close> and 0.
\<close>

definition request :: "env \<Rightarrow> http_client \<Rightarrow> world \<Rightarrow> (exc + reply) \<times> http_client \<times> world" where
  "request en c w =
     (case (case rate_limiter c of
              None \<Rightarrow> (Inr (), None, w)
            | Some rl \<Rightarrow> (case acquire rl w of (r, rl', w') \<Rightarrow> (r, Some rl', w'))) of
        (Inl e, rl', w1) \<Rightarrow> (Inl e, c\<lparr>rate_limiter := rl'\<rparr>, w1)
      | (Inr u, rl', w1) \<Rightarrow>
          (let n = (case retries c of None \<Rightarrow> 3 | Some k \<Rightarrow> if k = 0 then 3 else k);
               multiplier = (case retry_delay c of None \<Rightarrow> 1 | Some d \<Rightarrow> if d = 0 then 1 else d)
           in case make_request en n multiplier 1 (circuit_breaker c) (auth_manager c) w1 of
                (Inr result, cb', am', w') \<Rightarrow>
                  (Inr result,
                   c\<lparr>circuit_breaker := cb', rate_limiter := rl', auth_manager := am'\<rparr>, w')
              | (Inl e, cb', am', w') \<Rightarrow>
                  (Inl (transform_error e),
                   c\<lparr>circuit_breaker := cb', rate_limiter := rl', auth_manager := am'\<rparr>, w')))"

text \<open>
  A quiet world for examples: the clock at 0, nothing answers on either transport, an
  event loop is running.
\<close>

definition quiet :: world where
  "quiet = \<lparr>now = 0, slept = [],
             http = (\<lambda>k. (0, Inl HttpxRequestError)), http_calls = 0,
             auth_http = (\<lambda>k. (0, Inl HttpxRequestError)), auth_calls = 0,
             pending = [], next_tid = 0, loop_running = True\<rparr>"

text \<open>The \<^verbatim>\<open>AuthenticationError\<close> built from a message alone.\<close>

definition auth_error :: exc where
  "auth_error =
     SDK \<lparr>err_class = AuthenticationError, code = JStr ''AUTH_ERROR'', status = Some 401\<rparr>"

text \<open>
  Examples: library functions that decode nothing; a manager without callbacks that
  holds a bearer credential expiring at second 50, with a refresh token; a refresh
  response with a new access token and \<^verbatim>\<open>expires_in = 3600\<close>; a world whose refresh
  endpoint answers with that response under a given status.
\<close>

definition plain_env :: env where
  "plain_env = \<lparr>jwt_decode = (\<lambda>t. None), fromtimestamp = Some, fromisoformat = (\<lambda>s. None)\<rparr>"

definition bearer_manager :: "bool \<Rightarrow> auth_manager" where
  "bearer_manager auto =
     \<lparr>auto_refresh = auto, on_token_refresh = None, on_auth_error = None,
      token_info = Some \<lparr>access_token = ''a0'', refresh_token = Some ''r0'',
                         expires_at = Some (Naive 50), token_type = ''bearer''\<rparr>,
      refresh_task = None\<rparr>"

definition token_reply :: "int \<Rightarrow> response" where
  "token_reply st =
     \<lparr>status_code = st,
      body = Some (JObj [(''access_token'', JStr ''a1''), (''expires_in'', JNum 3600)]),
      body_text = []\<rparr>"

definition reply_world :: "int \<Rightarrow> world" where
  "reply_world st = quiet\<lparr>auth_http := (\<lambda>k. (0, Inr (token_reply st)))\<rparr>"

text \<open>
  More examples: a client as \<^verbatim>\<open>HttpClient(config, auth_manager)\<close> builds it from a
  default configuration (3 attempts, base delay 1, a new breaker, no rate limiter); a
  world whose API fails twice with a connection error and then answers 200; a world
  whose API answers every call with a given status and an empty body.
\<close>

definition plain_client :: "auth_manager option \<Rightarrow> http_client" where
  "plain_client am =
     \<lparr>retries = Some 3, retry_delay = Some 1,
      circuit_breaker = circuit_breaker_init 5 60 30,
      rate_limiter = None, auth_manager = am\<rparr>"

definition ok_response :: response where
  "ok_response = \<lparr>status_code = 200, body = Some (JObj [(''ok'', JBool True)]), body_text = []\<rparr>"

definition flaky_world :: world where
  "flaky_world =
     quiet\<lparr>http := (\<lambda>k. if k < 2 then (0, Inl HttpxRequestError) else (0, Inr ok_response))\<rparr>"

definition status_world :: "int \<Rightarrow> world" where
  "status_world st =
     quiet\<lparr>http := (\<lambda>k. (0, Inr \<lparr>status_code = st, body = None, body_text = []\<rparr>))\<rparr>"

text \<open>
  A world whose API answers 401 to the first call and 200 afterwards, and whose refresh
  endpoint answers 200 with a new token.
\<close>

definition expired_world :: world where
  "expired_world =
     quiet\<lparr>http := (\<lambda>k. if k = 0
                      then (0, Inr \<lparr>status_code = 401, body = None, body_text = []\<rparr>)
                      else (0, Inr ok_response)),
           auth_http := (\<lambda>k. (0, Inr (token_reply 200)))\<rparr>"

text \<open>A world whose API answers every call with a given status and a JSON error object.\<close>

definition problem_world :: "int \<Rightarrow> world" where
  "problem_world st =
     quiet\<lparr>http := (\<lambda>k. (0, Inr \<lparr>status_code = st,
                              body = Some (JObj [(''error'', JStr ''PROBLEM''),
                                                 (''message'', JStr ''the request was refused'')]),
                              body_text = []\<rparr>))\<rparr>"

section \<open>Verification: circuit breaker\<close>

lemma raise_circuit_breaker_error:
  "raise_new CircuitBreakerError no_kwargs =
     SDK \<lparr>err_class = CircuitBreakerError, code = JStr ''CIRCUIT_BREAKER_ERROR'',
          status = None\<rparr>"
  by (simp add: raise_new_def new_error_def no_kwargs_def base_init_def)


lemma call_threshold:
  "call cb f x w = (r, cb', x', w') \<Longrightarrow> failure_threshold cb' = failure_threshold cb"
  by (auto simp: call_def record_failure_def reset_def Let_def
           split: if_splits prod.splits sum.splits)



text \<open>
  C3 (amended). When the breaker is open and no more than \<open>timeout\<close> seconds have
  passed since the last failure (fewer than \<open>timeout\<close> seconds, or exactly \<open>timeout\<close>
  seconds), \<^verbatim>\<open>call\<close> raises \<^verbatim>\<open>CircuitBreakerError\<close>; the guarded function is not
  invoked (the caller's objects and the world are as before, whatever the function is)
  and the breaker, with its failure count and last failure time, is unchanged. When the
  breaker is open and strictly more than \<open>timeout\<close> seconds have passed, the breaker is
  first set to half-open, then the function is invoked (it sees the half-open breaker),
  and its outcome is processed from the half-open breaker.
\<close>

theorem call_when_open:
  assumes "state cb = Open"
  shows "(now w - last_failure_time cb \<le> timeout cb \<longrightarrow>
            call cb func x w =
              (Inl (SDK \<lparr>err_class = CircuitBreakerError,
                          code = JStr ''CIRCUIT_BREAKER_ERROR'', status = None\<rparr>), cb, x, w))
       \<and> (now w - last_failure_time cb > timeout cb \<longrightarrow>
            call cb func x w =
              (case func (cb\<lparr>state := HalfOpen\<rparr>) x w of
                 (Inr result, x', w') \<Rightarrow>
                   (Inr result, reset (cb\<lparr>state := HalfOpen\<rparr>), x', w')
               | (Inl e, x', w') \<Rightarrow>
                   (Inl e, record_failure (cb\<lparr>state := HalfOpen\<rparr>) (now w'), x', w')))"
  using assms
  by (auto simp: call_def raise_circuit_breaker_error split: prod.splits sum.splits)

theorem call_when_open_witness:
  "state \<lparr>failure_threshold = 5, timeout = 60, recovery_timeout = 30, failure_count = 5,
          last_failure_time = 100, state = Open\<rparr> = Open
   \<and> now (quiet\<lparr>now := 130\<rparr>) - 100 \<le> (60::real)
   \<and> call \<lparr>failure_threshold = 5, timeout = 60, recovery_timeout = 30, failure_count = 5,
             last_failure_time = 100, state = Open\<rparr>
           (\<lambda>cb x w. (Inr (state cb), Suc x, w)) (0::nat) (quiet\<lparr>now := 130\<rparr>)
       = (Inl (SDK \<lparr>err_class = CircuitBreakerError,
                     code = JStr ''CIRCUIT_BREAKER_ERROR'', status = None\<rparr>),
          \<lparr>failure_threshold = 5, timeout = 60, recovery_timeout = 30, failure_count = 5,
           last_failure_time = 100, state = Open\<rparr>, 0, quiet\<lparr>now := 130\<rparr>)
   \<and> now (quiet\<lparr>now := 161\<rparr>) - 100 > (60::real)
   \<and> call \<lparr>failure_threshold = 5, timeout = 60, recovery_timeout = 30, failure_count = 5,
             last_failure_time = 100, state = Open\<rparr>
           (\<lambda>cb x w. (Inr (state cb), Suc x, w)) (0::nat) (quiet\<lparr>now := 161\<rparr>)
       = (Inr HalfOpen,
          \<lparr>failure_threshold = 5, timeout = 60, recovery_timeout = 30, failure_count = 0,
           last_failure_time = 0, state = Closed\<rparr>, 1, quiet\<lparr>now := 161\<rparr>)"
  using call_when_open
    [of "\<lparr>failure_threshold = 5, timeout = 60, recovery_timeout = 30, failure_count = 5,
          last_failure_time = 100, state = Open\<rparr>"
        "quiet\<lparr>now := 130\<rparr>" "\<lambda>cb x w. (Inr (state cb), Suc x, w)" "0::nat"]
      call_when_open
    [of "\<lparr>failure_threshold = 5, timeout = 60, recovery_timeout = 30, failure_count = 5,
          last_failure_time = 100, state = Open\<rparr>"
        "quiet\<lparr>now := 161\<rparr>" "\<lambda>cb x w. (Inr (state cb), Suc x, w)" "0::nat"]
  by (simp add: quiet_def reset_def)

text \<open>
  C3 as stated fails at the boundary: the breaker is open, the last failure was at
  second 100 and the timeout is 60, so that at second 160 the timeout has elapsed; the
  code compares with a strict \<open>>\<close>, and \<^verbatim>\<open>call\<close> still raises \<^verbatim>\<open>CircuitBreakerError\<close>
  without setting the breaker half-open and without invoking the function.
\<close>

theorem call_when_open_boundary_counterexample:
  "state \<lparr>failure_threshold = 5, timeout = 60, recovery_timeout = 30, failure_count = 5,
          last_failure_time = 100, state = Open\<rparr> = Open
   \<and> now (quiet\<lparr>now := 160\<rparr>) - 100 = (60::real)
   \<and> call \<lparr>failure_threshold = 5, timeout = 60, recovery_timeout = 30, failure_count = 5,
             last_failure_time = 100, state = Open\<rparr>
           (\<lambda>cb x w. (Inr (state cb), Suc x, w)) (0::nat) (quiet\<lparr>now := 160\<rparr>)
       = (Inl (SDK \<lparr>err_class = CircuitBreakerError,
                     code = JStr ''CIRCUIT_BREAKER_ERROR'', status = None\<rparr>),
          \<lparr>failure_threshold = 5, timeout = 60, recovery_timeout = 30, failure_count = 5,
           last_failure_time = 100, state = Open\<rparr>, 0, quiet\<lparr>now := 160\<rparr>)"
  by (simp add: call_def raise_circuit_breaker_error quiet_def)




section \<open>Verification: rate limiter\<close>

lemma bucket_ok_init: "0 \<le> burst \<Longrightarrow> bucket_ok (rate_limiter_init rps burst w)"
  by (simp add: bucket_ok_def rate_limiter_init_def)

lemma refill_ok:
  assumes "bucket_ok rl" "0 \<le> requests_per_second rl" "last_update rl \<le> t"
  shows "bucket_ok (refill rl t)"
proof -
  have "0 \<le> (t - last_update rl) * requests_per_second rl"
    using assms by simp
  with assms(1) show ?thesis
    by (auto simp: bucket_ok_def refill_def Let_def min_def)
qed

lemma acquire_ok:
  assumes "bucket_ok rl" "0 \<le> requests_per_second rl" "last_update rl \<le> now w"
    and "acquire rl w = (r, rl', w')"
  shows "bucket_ok rl' \<and> last_update rl' \<le> now w'
       \<and> requests_per_second rl' = requests_per_second rl
       \<and> burst_size rl' = burst_size rl"
proof -
  have "bucket_ok (refill rl (now w))"
    using assms(1-3) by (rule refill_ok)
  then show ?thesis
    using assms(4)
    by (auto simp: acquire_def Let_def bucket_ok_def sleep_def refill_def split: if_splits)
qed

lemma acquire_run_ok:
  assumes "bucket_ok rl" "0 \<le> requests_per_second rl" "last_update rl \<le> now w"
    and "\<forall>g\<in>set gs. 0 \<le> g"
  shows "\<forall>s\<in>set (acquire_run rl gs w). bucket_ok s"
  using assms
proof (induction gs arbitrary: rl w)
  case Nil
  then show ?case by simp
next
  case (Cons g gs)
  let ?w1 = "w\<lparr>now := now w + g\<rparr>"
  have lu: "last_update rl \<le> now ?w1"
    using Cons.prems by simp
  obtain r rl' w' where a: "acquire rl ?w1 = (r, rl', w')"
    by (metis prod_cases3)
  from acquire_ok [OF Cons.prems(1,2) lu a]
  have ok': "bucket_ok rl'" "last_update rl' \<le> now w'"
    "requests_per_second rl' = requests_per_second rl"
    by auto
  have r1: "bucket_ok (refill rl (now ?w1))"
    using Cons.prems(1,2) lu by (rule refill_ok)
  show ?case
  proof (cases r)
    case (Inl e)
    with a r1 ok' Cons.prems(1) show ?thesis
      by (simp add: Let_def)
  next
    case (Inr u)
    have "\<forall>s\<in>set (acquire_run rl' gs w'). bucket_ok s"
      using Cons.IH [of rl' w'] ok' Cons.prems by simp
    with Inr a r1 Cons.prems(1) show ?thesis
      by (simp add: Let_def)
  qed
qed

text \<open>
  C9. Every \<^verbatim>\<open>acquire\<close> (on a limiter with a refill rate other than 0) first refills
  the bucket to \<open>min capacity (tokens + elapsed * rate)\<close>; with at least one token it takes
  one and returns without sleeping, otherwise it sleeps \<open>(1 - tokens) / rate\<close> seconds and
  sets the tokens to 0. For a limiter built with a capacity that is not negative and a
  positive rate, and a clock that does not run backwards, every state of the bucket
  observed along any sequence of \<^verbatim>\<open>acquire\<close> calls (before a call, after the refill
  inside it, after it) has \<open>0 \<le> tokens \<le> capacity\<close>.
\<close>

theorem rate_limiter_acquire:
  assumes "0 \<le> burst" and "0 < rps" and "\<forall>g\<in>set gaps. 0 \<le> g"
    and "requests_per_second rl \<noteq> 0"
  shows "acquire rl w =
           (let filled = min (burst_size rl)
                           (tokens rl + (now w - last_update rl) * requests_per_second rl)
            in if filled \<ge> 1
               then (Inr (), rl\<lparr>tokens := filled - 1, last_update := now w\<rparr>, w)
               else (Inr (), rl\<lparr>tokens := 0, last_update := now w\<rparr>,
                     sleep ((1 - filled) / requests_per_second rl) w))
       \<and> (\<forall>s\<in>set (acquire_run (rate_limiter_init rps burst w0) gaps w0).
              0 \<le> tokens s \<and> tokens s \<le> burst_size s \<and> burst_size s = burst)"
proof -
  have step: "acquire rl w =
           (let filled = min (burst_size rl)
                           (tokens rl + (now w - last_update rl) * requests_per_second rl)
            in if filled \<ge> 1
               then (Inr (), rl\<lparr>tokens := filled - 1, last_update := now w\<rparr>, w)
               else (Inr (), rl\<lparr>tokens := 0, last_update := now w\<rparr>,
                     sleep ((1 - filled) / requests_per_second rl) w))"
    using assms(4) by (simp add: acquire_def refill_def Let_def)
  have "\<forall>s\<in>set (acquire_run (rate_limiter_init rps burst w0) gaps w0). bucket_ok s"
    using assms(1-3) by (intro acquire_run_ok bucket_ok_init) (simp_all add: rate_limiter_init_def)
  moreover have "\<forall>s\<in>set (acquire_run rl0 gaps w0). burst_size s = burst_size rl0" for rl0
  proof (induction gaps arbitrary: rl0 w0)
    case Nil
    then show ?case by simp
  next
    case (Cons g gs)
    obtain r rl' w' where a: "acquire rl0 (w0\<lparr>now := now w0 + g\<rparr>) = (r, rl', w')"
      by (metis prod_cases3)
    then have b: "burst_size rl' = burst_size rl0"
      by (auto simp: acquire_def refill_def Let_def split: if_splits)
    show ?case
      using a b Cons.IH [of rl' w']
      by (cases r) (simp_all add: Let_def refill_def)
  qed
  ultimately have "\<forall>s\<in>set (acquire_run (rate_limiter_init rps burst w0) gaps w0).
              0 \<le> tokens s \<and> tokens s \<le> burst_size s \<and> burst_size s = burst"
    by (simp add: bucket_ok_def rate_limiter_init_def)
  with step show ?thesis by blast
qed

theorem rate_limiter_acquire_witness:
  "(0::real) \<le> 1 \<and> (0::real) < 1 \<and> list_all (\<lambda>g. (0::real) \<le> g) [0, 0, 1 / 2]
   \<and> requests_per_second (rate_limiter_init 1 1 quiet) \<noteq> 0
   \<and> acquire (rate_limiter_init 1 1 quiet) quiet
       = (Inr (), \<lparr>requests_per_second = 1, burst_size = 1, tokens = 0, last_update = 0\<rparr>,
          quiet)
   \<and> acquire \<lparr>requests_per_second = 1, burst_size = 1, tokens = 1 / 4, last_update = 0\<rparr>
         quiet
       = (Inr (), \<lparr>requests_per_second = 1, burst_size = 1, tokens = 0, last_update = 0\<rparr>,
          quiet\<lparr>now := 3 / 4, slept := [3 / 4]\<rparr>)
   \<and> map tokens (acquire_run (rate_limiter_init 1 1 quiet) [0, 0, 1 / 2] quiet)
       = [1, 1, 0, 0, 0, 1, 0]"
proof -
  have run: "map tokens (acquire_run (rate_limiter_init 1 1 quiet) [0, 0, 1 / 2] quiet)
       = [1, 1, 0, 0, 0, 1, 0]"
    by (simp add: quiet_def rate_limiter_init_def acquire_def refill_def sleep_def Let_def)
  show ?thesis
    using rate_limiter_acquire [of 1 1 "[0, 0, 1 / 2]" "rate_limiter_init 1 1 quiet" quiet quiet]
      rate_limiter_acquire [of 1 1 "[]"
        "\<lparr>requests_per_second = 1, burst_size = 1, tokens = 1 / 4, last_update = 0\<rparr>"
        quiet quiet]
    unfolding run
    by (simp add: quiet_def rate_limiter_init_def sleep_def Let_def)
qed

section \<open>Verification: token store\<close>

lemma raise_auth: "raise_new AuthenticationError no_kwargs = auth_error"
  by (simp add: raise_new_def new_error_def no_kwargs_def base_init_def auth_error_def)

lemma schedule_refresh_frame:
  "schedule_refresh am w = (r, am', w') \<Longrightarrow>
     token_info am' = token_info am \<and> auto_refresh am' = auto_refresh am
   \<and> on_token_refresh am' = on_token_refresh am \<and> on_auth_error am' = on_auth_error am
   \<and> now w' = now w \<and> auth_calls w' = auth_calls w \<and> http_calls w' = http_calls w
   \<and> slept w' = slept w \<and> http w' = http w \<and> auth_http w' = auth_http w"
  by (auto simp: schedule_refresh_def create_task_def split: option.splits sum.splits if_splits prod.splits)

lemma set_tokens_frame:
  assumes "set_tokens am ti w = (r, am', w')"
  shows "token_info am' = Some ti \<and> auto_refresh am' = auto_refresh am
   \<and> on_token_refresh am' = on_token_refresh am \<and> on_auth_error am' = on_auth_error am
   \<and> now w' = now w \<and> auth_calls w' = auth_calls w \<and> http_calls w' = http_calls w
   \<and> slept w' = slept w \<and> http w' = http w \<and> auth_http w' = auth_http w"
proof -
  obtain am2 w2 where c: "(case refresh_task (am\<lparr>token_info := Some ti\<rparr>) of
                         Some t \<Rightarrow> ((am\<lparr>token_info := Some ti\<rparr>)\<lparr>refresh_task := None\<rparr>, cancel t w)
                       | None \<Rightarrow> (am\<lparr>token_info := Some ti\<rparr>, w)) = (am2, w2)"
    by (metis surj_pair)
  then have f2: "token_info am2 = Some ti \<and> auto_refresh am2 = auto_refresh am
   \<and> on_token_refresh am2 = on_token_refresh am \<and> on_auth_error am2 = on_auth_error am
   \<and> now w2 = now w \<and> auth_calls w2 = auth_calls w \<and> http_calls w2 = http_calls w
   \<and> slept w2 = slept w \<and> http w2 = http w \<and> auth_http w2 = auth_http w"
    by (auto simp: cancel_def split: option.splits)
  obtain r3 am3 w3 where s: "(if auto_refresh am2 \<and> truthy_str (refresh_token ti) \<and> expires_at ti \<noteq> None
               then schedule_refresh am2 w2 else (Inr (), am2, w2)) = (r3, am3, w3)"
    by (metis prod_cases3)
  then have f3: "token_info am3 = token_info am2 \<and> auto_refresh am3 = auto_refresh am2
   \<and> on_token_refresh am3 = on_token_refresh am2 \<and> on_auth_error am3 = on_auth_error am2
   \<and> now w3 = now w2 \<and> auth_calls w3 = auth_calls w2 \<and> http_calls w3 = http_calls w2
   \<and> slept w3 = slept w2 \<and> http w3 = http w2 \<and> auth_http w3 = auth_http w2"
    using schedule_refresh_frame[of am2 w2 r3 am3 w3] by (auto split: if_splits)
  have "am' = am3 \<and> w' = w3"
    using assms c s by (auto simp: set_tokens_def Let_def split: sum.splits option.splits)
  with f2 f3 show ?thesis by simp
qed

lemma refresh_exchange_success:
  assumes "refresh_exchange en am prev w = (Inr new, am', w')"
  shows "token_info am' = Some new \<and> auth_calls w' = Suc (auth_calls w)
       \<and> (\<exists>resp w1. auth_client_post w = (Inr resp, w1) \<and> status_code resp = 200
             \<and> new_token_info en prev resp (now w1) = Inr new
             \<and> set_tokens am new w1 = (Inr (), am', w'))"
proof -
  obtain r w1 where p: "auth_client_post w = (r, w1)" by (metis surj_pair)
  then have ac: "auth_calls w1 = Suc (auth_calls w)"
    by (auto simp: auth_client_post_def split: prod.splits)
  from assms p obtain resp where r: "r = Inr resp" "status_code resp = 200"
    by (cases r) (auto simp: refresh_exchange_def split: if_splits)
  from assms p r have n: "new_token_info en prev resp (now w1) = Inr new"
    by (auto simp: refresh_exchange_def split: sum.splits prod.splits)
  from assms p r n have s: "set_tokens am new w1 = (Inr (), am', w')"
    by (auto simp: refresh_exchange_def split: sum.splits prod.splits)
  from set_tokens_frame[OF s] ac p r n s show ?thesis by simp
qed

lemma refresh_exchange_failure_early:
  assumes "auth_client_post w = (r, w1)"
    and "(\<exists>e. r = Inl e) \<or> (\<exists>resp. r = Inr resp \<and> (status_code resp \<noteq> 200 \<or> (\<exists>e. new_token_info en prev resp (now w1) = Inl e)))"
  shows "\<exists>e. refresh_exchange en am prev w = (Inl e, am, w1)"
  using assms by (auto simp: refresh_exchange_def split: sum.splits)

lemma am_refresh_token_success:
  assumes "am_refresh_token en am w = (Inr new, am', w')"
  shows "token_info am' = Some new \<and> auth_calls w' = Suc (auth_calls w)
       \<and> (\<exists>prev resp w1. token_info am = Some prev \<and> truthy_str (refresh_token prev)
             \<and> auth_client_post w = (Inr resp, w1) \<and> status_code resp = 200
             \<and> new_token_info en prev resp (now w1) = Inr new
             \<and> set_tokens am new w1 = (Inr (), am', w'))"
proof -
  from assms obtain prev where p: "token_info am = Some prev" "truthy_str (refresh_token prev)"
    by (auto simp: am_refresh_token_def Let_def split: option.splits if_splits)
  with assms have "refresh_exchange en am prev w = (Inr new, am', w')"
    by (auto simp: am_refresh_token_def Let_def split: sum.splits prod.splits option.splits)
  from refresh_exchange_success[OF this] p show ?thesis by blast
qed

lemmas eval_defs = am_refresh_token_def refresh_exchange_def auth_client_post_def
  new_token_info_def set_tokens_def schedule_refresh_def create_task_def cancel_def utcnow_def
  raise_new_def new_error_def no_kwargs_def base_init_def auth_error_def
  utcnow_plus_def datetime_ok_def timedelta_ok_def
  plain_env_def bearer_manager_def token_reply_def reply_world_def quiet_def Let_def

lemma refresh_example_200:
  "am_refresh_token plain_env (bearer_manager True) (reply_world 200) =
     (Inr \<lparr>access_token = ''a1'', refresh_token = Some ''r0'',
            expires_at = Some (Naive 3600), token_type = ''bearer''\<rparr>,
      (bearer_manager True)
        \<lparr>token_info := Some \<lparr>access_token = ''a1'', refresh_token = Some ''r0'',
            expires_at = Some (Naive 3600), token_type = ''bearer''\<rparr>,
         refresh_task := Some 0\<rparr>,
      (reply_world 200)
        \<lparr>auth_calls := 1, pending := [\<lparr>tid = 0, armed_at = 0, delay = 3300\<rparr>],
         next_tid := 1\<rparr>)"
  by (simp add: eval_defs)

lemma refresh_example_other:
  "st \<noteq> 200 \<Longrightarrow>
     am_refresh_token plain_env (bearer_manager True) (reply_world st) =
       (Inl auth_error, bearer_manager True, (reply_world st)\<lparr>auth_calls := 1\<rparr>)"
  by (simp add: eval_defs)

lemma post_example:
  "auth_client_post (reply_world st) = (Inr (token_reply st), (reply_world st)\<lparr>auth_calls := 1\<rparr>)"
  by (simp add: auth_client_post_def reply_world_def quiet_def)

text \<open>
  C7 (amended). As long as \<^verbatim>\<open>on_auth_error\<close> (if set) returns, \<^verbatim>\<open>refresh_token\<close>
  either returns the new credential or raises \<^verbatim>\<open>AuthenticationError\<close>. It returns only
  if a credential with a non-empty refresh token was stored, the transport call returned
  a response with status 200 and the new credential could be built from its body; then
  the stored credential is the new one. It raises \<^verbatim>\<open>AuthenticationError\<close> and leaves the
  manager, with the stored credential, as it was when no credential or no refresh token
  is stored, when the transport call raises, when the status is not 200 (201 and 204
  included), and when no credential can be built from the body.
\<close>

theorem refresh_token_outcome:
  assumes "\<forall>notify. on_auth_error am = Some notify \<longrightarrow> notify auth_error = None"
    and "am_refresh_token en am w = (r, am', w')"
    and "auth_client_post w = (tr, w1)"
  shows "(r = Inl auth_error \<or> (\<exists>new. r = Inr new))
       \<and> (\<forall>new. r = Inr new \<longrightarrow>
              token_info am' = Some new
            \<and> (\<exists>prev resp. token_info am = Some prev \<and> truthy_str (refresh_token prev)
                  \<and> tr = Inr resp \<and> status_code resp = 200
                  \<and> new_token_info en prev resp (now w1) = Inr new))
       \<and> (token_info am = None \<or> (\<exists>prev. token_info am = Some prev \<and> \<not> truthy_str (refresh_token prev))
            \<longrightarrow> r = Inl auth_error \<and> am' = am \<and> w' = w)
       \<and> (\<forall>prev. token_info am = Some prev \<and> truthy_str (refresh_token prev)
              \<and> ((\<exists>e. tr = Inl e)
                  \<or> (\<exists>resp. tr = Inr resp \<and> (status_code resp \<noteq> 200
                         \<or> (\<exists>e. new_token_info en prev resp (now w1) = Inl e))))
            \<longrightarrow> r = Inl auth_error \<and> am' = am \<and> w' = w1)"
proof (intro conjI allI impI)
  show "r = Inl auth_error \<or> (\<exists>new. r = Inr new)"
  proof (cases r)
    case (Inr new) then show ?thesis by simp
  next
    case (Inl e)
    show ?thesis
    proof (cases "token_info am")
      case None
      with assms(2) Inl show ?thesis by (simp add: am_refresh_token_def raise_auth)
    next
      case (Some prev)
      show ?thesis
      proof (cases "truthy_str (refresh_token prev)")
        case False
        with assms(2) Inl Some show ?thesis by (simp add: am_refresh_token_def raise_auth)
      next
        case True
        obtain r2 am2 w2 where x: "refresh_exchange en am prev w = (r2, am2, w2)" by (metis prod_cases3)
        have oa: "on_auth_error am2 = on_auth_error am"
        proof -
          obtain tr0 w10 where p: "auth_client_post w = (tr0, w10)" by (metis surj_pair)
          show ?thesis
            using x p set_tokens_frame
            by (fastforce simp: refresh_exchange_def split: sum.splits if_splits prod.splits)
        qed
        from assms(2) Inl Some True x obtain e2 where "r2 = Inl e2" 
          by (cases r2) (auto simp: am_refresh_token_def)
        with assms(1,2) Inl Some True x oa show ?thesis
          by (auto simp: am_refresh_token_def Let_def raise_auth split: option.splits)
      qed
    qed
  qed
next
  fix new assume "r = Inr new"
  with assms(2) have s: "am_refresh_token en am w = (Inr new, am', w')" by simp
  from am_refresh_token_success[OF s] show "token_info am' = Some new" by simp
  from am_refresh_token_success[OF s] assms(3)
  show "\<exists>prev resp. token_info am = Some prev \<and> truthy_str (refresh_token prev)
                  \<and> tr = Inr resp \<and> status_code resp = 200
                  \<and> new_token_info en prev resp (now w1) = Inr new"
    by auto
next
  assume a: "token_info am = None \<or> (\<exists>prev. token_info am = Some prev \<and> \<not> truthy_str (refresh_token prev))"
  with assms(2) show "r = Inl auth_error" "am' = am" "w' = w"
    by (auto simp: am_refresh_token_def raise_auth)
next
  fix prev
  assume a: "token_info am = Some prev \<and> truthy_str (refresh_token prev)
              \<and> ((\<exists>e. tr = Inl e)
                  \<or> (\<exists>resp. tr = Inr resp \<and> (status_code resp \<noteq> 200
                         \<or> (\<exists>e. new_token_info en prev resp (now w1) = Inl e))))"
  then obtain e where x: "refresh_exchange en am prev w = (Inl e, am, w1)"
    using refresh_exchange_failure_early[OF assms(3), of en prev am] by blast
  with a assms(1,2) show "r = Inl auth_error" "am' = am" "w' = w1"
    by (auto simp: am_refresh_token_def Let_def raise_auth split: option.splits)
qed

theorem refresh_token_outcome_witness:
  "on_auth_error (bearer_manager True) = None
   \<and> auth_client_post (reply_world 200)
       = (Inr (token_reply 200), (reply_world 200)\<lparr>auth_calls := 1\<rparr>)
   \<and> status_code (token_reply 200) = 200
   \<and> fst (am_refresh_token plain_env (bearer_manager True) (reply_world 200))
       = Inr \<lparr>access_token = ''a1'', refresh_token = Some ''r0'',
              expires_at = Some (Naive 3600), token_type = ''bearer''\<rparr>
   \<and> token_info (fst (snd (am_refresh_token plain_env (bearer_manager True) (reply_world 200))))
       = Some \<lparr>access_token = ''a1'', refresh_token = Some ''r0'',
              expires_at = Some (Naive 3600), token_type = ''bearer''\<rparr>
   \<and> auth_client_post (reply_world 503)
       = (Inr (token_reply 503), (reply_world 503)\<lparr>auth_calls := 1\<rparr>)
   \<and> status_code (token_reply 503) \<noteq> 200
   \<and> am_refresh_token plain_env (bearer_manager True) (reply_world 503)
       = (Inl auth_error, bearer_manager True, (reply_world 503)\<lparr>auth_calls := 1\<rparr>)"
proof -
  have h: "\<forall>notify. on_auth_error (bearer_manager True) = Some notify
             \<longrightarrow> notify auth_error = None"
    by (simp add: bearer_manager_def)
  have e503: "am_refresh_token plain_env (bearer_manager True) (reply_world 503)
       = (Inl auth_error, bearer_manager True, (reply_world 503)\<lparr>auth_calls := 1\<rparr>)"
    by (rule refresh_example_other) simp
  have "token_info ((bearer_manager True)
        \<lparr>token_info := Some \<lparr>access_token = ''a1'', refresh_token = Some ''r0'',
            expires_at = Some (Naive 3600), token_type = ''bearer''\<rparr>,
         refresh_task := Some 0\<rparr>)
       = Some \<lparr>access_token = ''a1'', refresh_token = Some ''r0'',
              expires_at = Some (Naive 3600), token_type = ''bearer''\<rparr>"
    using refresh_token_outcome [OF h refresh_example_200 post_example] by blast
  moreover have "(Inl auth_error :: exc + token_info) = Inl auth_error"
    using refresh_token_outcome [OF h e503 post_example] by blast
  moreover have "on_auth_error (bearer_manager True) = None"
    by (simp add: bearer_manager_def)
  moreover have "status_code (token_reply 200) = 200" "status_code (token_reply 503) \<noteq> 200"
    by (simp_all add: token_reply_def)
  ultimately show ?thesis
    by (simp add: refresh_example_200 e503 post_example)
qed

text \<open>
  C7 as stated fails: the refresh endpoint answers 201, a 2xx status, with a complete
  body, the transport call does not fail, and \<^verbatim>\<open>refresh_token\<close> raises
  \<^verbatim>\<open>AuthenticationError\<close>.
\<close>

theorem refresh_token_201_counterexample:
  "auth_client_post (reply_world 201)
     = (Inr (token_reply 201), (reply_world 201)\<lparr>auth_calls := 1\<rparr>)
   \<and> 200 \<le> status_code (token_reply 201) \<and> status_code (token_reply 201) < 300
   \<and> am_refresh_token plain_env (bearer_manager True) (reply_world 201)
       = (Inl auth_error, bearer_manager True, (reply_world 201)\<lparr>auth_calls := 1\<rparr>)"
  by (simp add: refresh_example_other post_example) (simp add: token_reply_def)

text \<open>
  C10. When \<^verbatim>\<open>refresh_token\<close> returns and the body of the refresh response has no
  \<^verbatim>\<open>refresh_token\<close> field, the new credential, which is the one stored afterwards,
  carries the refresh token of the credential stored before; that token is not empty,
  so a further refresh is possible.
\<close>

theorem refresh_keeps_refresh_token:
  assumes "am_refresh_token en am w = (Inr new, am', w')"
    and "token_info am = Some prev"
    and "auth_client_post w = (Inr resp, w1)"
    and "body resp = Some (JObj data)"
    and "map_of data ''refresh_token'' = None"
  shows "token_info am' = Some new \<and> refresh_token new = refresh_token prev
       \<and> truthy_str (refresh_token new)"
proof -
  from am_refresh_token_success [OF assms(1)] assms(2,3)
  have st: "token_info am' = Some new" and tr: "truthy_str (refresh_token prev)"
    and n: "new_token_info en prev resp (now w1) = Inr new"
    by auto
  from n assms(4,5) have "refresh_token new = refresh_token prev"
    by (auto simp: new_token_info_def Let_def
             split: option.splits json.splits sum.splits if_splits)
  with st tr show ?thesis by simp
qed

theorem refresh_keeps_refresh_token_witness:
  "token_info (bearer_manager True)
       = Some \<lparr>access_token = ''a0'', refresh_token = Some ''r0'',
                expires_at = Some (Naive 50), token_type = ''bearer''\<rparr>
   \<and> auth_client_post (reply_world 200)
       = (Inr (token_reply 200), (reply_world 200)\<lparr>auth_calls := 1\<rparr>)
   \<and> body (token_reply 200)
       = Some (JObj [(''access_token'', JStr ''a1''), (''expires_in'', JNum 3600)])
   \<and> map_of [(''access_token'', JStr ''a1''), (''expires_in'', JNum 3600)] ''refresh_token''
       = None
   \<and> fst (am_refresh_token plain_env (bearer_manager True) (reply_world 200))
       = Inr \<lparr>access_token = ''a1'', refresh_token = Some ''r0'',
              expires_at = Some (Naive 3600), token_type = ''bearer''\<rparr>
   \<and> refresh_token \<lparr>access_token = ''a1'', refresh_token = Some ''r0'',
            expires_at = Some (Naive 3600), token_type = ''bearer''\<rparr> = Some ''r0''"
proof -
  have t: "token_info (bearer_manager True)
       = Some \<lparr>access_token = ''a0'', refresh_token = Some ''r0'',
                expires_at = Some (Naive 50), token_type = ''bearer''\<rparr>"
    by (simp add: bearer_manager_def)
  have b: "body (token_reply 200)
       = Some (JObj [(''access_token'', JStr ''a1''), (''expires_in'', JNum 3600)])"
    by (simp add: token_reply_def)
  have m: "map_of [(''access_token'', JStr ''a1''), (''expires_in'', JNum 3600)]
             ''refresh_token'' = None"
    by simp
  have "refresh_token \<lparr>access_token = ''a1'', refresh_token = Some ''r0'',
            expires_at = Some (Naive 3600), token_type = ''bearer''\<rparr>
          = refresh_token \<lparr>access_token = ''a0'', refresh_token = Some ''r0'',
                expires_at = Some (Naive 50), token_type = ''bearer''\<rparr>"
    using refresh_keeps_refresh_token [OF refresh_example_200 t post_example b m] by blast
  with t b m show ?thesis
    by (simp add: refresh_example_200 post_example)
qed

lemma ensure_example_refresh:
  "ensure_valid_token plain_env (bearer_manager True) (reply_world 200) =
     (Inr ''a1'',
      (bearer_manager True)
        \<lparr>token_info := Some \<lparr>access_token = ''a1'', refresh_token = Some ''r0'',
            expires_at = Some (Naive 3600), token_type = ''bearer''\<rparr>,
         refresh_task := Some 0\<rparr>,
      (reply_world 200)
        \<lparr>auth_calls := 1, pending := [\<lparr>tid = 0, armed_at = 0, delay = 3300\<rparr>],
         next_tid := 1\<rparr>)"
proof -
  have v: "is_token_valid (bearer_manager True) (reply_world 200) = Inr False"
    by (simp add: is_token_valid_def utcnow_def datetime_ok_def bearer_manager_def
          reply_world_def quiet_def)
  have t: "token_info (bearer_manager True)
       = Some \<lparr>access_token = ''a0'', refresh_token = Some ''r0'',
                expires_at = Some (Naive 50), token_type = ''bearer''\<rparr>"
    and a: "auto_refresh (bearer_manager True)"
    by (simp_all add: bearer_manager_def)
  show ?thesis
    by (simp add: ensure_valid_token_def v t a refresh_example_200)
qed

lemma ensure_example_no_auto:
  "ensure_valid_token plain_env (bearer_manager False) (quiet\<lparr>now := 100\<rparr>)
     = (Inl auth_error, bearer_manager False, quiet\<lparr>now := 100\<rparr>)"
  by (simp add: ensure_valid_token_def is_token_valid_def utcnow_def datetime_ok_def
        bearer_manager_def quiet_def raise_auth)

lemma valid_example:
  "is_token_valid (bearer_manager a) (quiet\<lparr>now := t\<rparr>) = Inr (t < -10)"
  by (simp add: is_token_valid_def utcnow_def datetime_ok_def bearer_manager_def quiet_def)

text \<open>
  C6 (amended). Whenever the validity check returns: if the credential is valid,
  \<^verbatim>\<open>ensure_valid_token\<close> returns its access token and changes nothing; if it is not
  valid, a non-empty refresh token is stored and \<^verbatim>\<open>auto_refresh\<close> is on, it runs
  \<^verbatim>\<open>refresh_token\<close> and returns the access token of the new credential, which is
  then the stored one, after one call of the refresh endpoint (or raises what the
  refresh raises); in every other case (no credential, or an invalid one with no refresh
  token or with \<^verbatim>\<open>auto_refresh\<close> off) it raises \<^verbatim>\<open>AuthenticationError\<close> and changes
  nothing.
\<close>

theorem ensure_valid_token_cases:
  assumes "is_token_valid am w = Inr valid"
  shows "(valid \<longrightarrow>
            (\<exists>ti. token_info am = Some ti
                \<and> ensure_valid_token en am w = (Inr (access_token ti), am, w)))
       \<and> (\<not> valid \<and> (\<exists>ti. token_info am = Some ti \<and> truthy_str (refresh_token ti))
              \<and> auto_refresh am \<longrightarrow>
            (case am_refresh_token en am w of
               (Inr new, am', w') \<Rightarrow>
                 ensure_valid_token en am w = (Inr (access_token new), am', w')
                 \<and> token_info am' = Some new \<and> auth_calls w' = Suc (auth_calls w)
             | (Inl e, am', w') \<Rightarrow> ensure_valid_token en am w = (Inl e, am', w')))
       \<and> (\<not> valid \<and> \<not> ((\<exists>ti. token_info am = Some ti \<and> truthy_str (refresh_token ti))
                         \<and> auto_refresh am) \<longrightarrow>
            ensure_valid_token en am w = (Inl auth_error, am, w))"
proof (intro conjI impI)
  assume valid
  with assms show "\<exists>ti. token_info am = Some ti
                \<and> ensure_valid_token en am w = (Inr (access_token ti), am, w)"
    by (cases "token_info am") (auto simp: ensure_valid_token_def is_token_valid_def)
next
  assume a: "\<not> valid \<and> (\<exists>ti. token_info am = Some ti \<and> truthy_str (refresh_token ti))
              \<and> auto_refresh am"
  then obtain ti where ti: "token_info am = Some ti" "truthy_str (refresh_token ti)" by blast
  obtain r am' w' where x: "am_refresh_token en am w = (r, am', w')" by (metis prod_cases3)
  show "case am_refresh_token en am w of
               (Inr new, am', w') \<Rightarrow>
                 ensure_valid_token en am w = (Inr (access_token new), am', w')
                 \<and> token_info am' = Some new \<and> auth_calls w' = Suc (auth_calls w)
             | (Inl e, am', w') \<Rightarrow> ensure_valid_token en am w = (Inl e, am', w')"
  proof (cases r)
    case (Inl e)
    with x a ti assms show ?thesis by (simp add: ensure_valid_token_def)
  next
    case (Inr new)
    with x have s: "am_refresh_token en am w = (Inr new, am', w')" by simp
    from am_refresh_token_success [OF s] s a ti assms show ?thesis
      by (simp add: ensure_valid_token_def)
  qed
next
  assume a: "\<not> valid \<and> \<not> ((\<exists>ti. token_info am = Some ti \<and> truthy_str (refresh_token ti))
                         \<and> auto_refresh am)"
  with assms show "ensure_valid_token en am w = (Inl auth_error, am, w)"
    by (cases "token_info am") (auto simp: ensure_valid_token_def raise_auth)
qed

theorem ensure_valid_token_cases_witness:
  "is_token_valid (bearer_manager True) (reply_world 200) = Inr False
   \<and> token_info (bearer_manager True)
       = Some \<lparr>access_token = ''a0'', refresh_token = Some ''r0'',
                expires_at = Some (Naive 50), token_type = ''bearer''\<rparr>
   \<and> truthy_str (Some ''r0'') \<and> auto_refresh (bearer_manager True)
   \<and> fst (ensure_valid_token plain_env (bearer_manager True) (reply_world 200)) = Inr ''a1''
   \<and> is_token_valid (bearer_manager True) (quiet\<lparr>now := - 20\<rparr>) = Inr True
   \<and> ensure_valid_token plain_env (bearer_manager True) (quiet\<lparr>now := - 20\<rparr>)
       = (Inr ''a0'', bearer_manager True, quiet\<lparr>now := - 20\<rparr>)"
proof -
  have v1: "is_token_valid (bearer_manager True) (reply_world 200) = Inr False"
    by (simp add: is_token_valid_def utcnow_def datetime_ok_def bearer_manager_def
          reply_world_def quiet_def)
  have v2: "is_token_valid (bearer_manager True) (quiet\<lparr>now := - 20\<rparr>) = Inr True"
    by (simp add: valid_example)
  have t: "token_info (bearer_manager True)
       = Some \<lparr>access_token = ''a0'', refresh_token = Some ''r0'',
                expires_at = Some (Naive 50), token_type = ''bearer''\<rparr>"
    and a: "auto_refresh (bearer_manager True)"
    by (simp_all add: bearer_manager_def)
  have "fst (ensure_valid_token plain_env (bearer_manager True) (reply_world 200)) = Inr ''a1''"
    using ensure_valid_token_cases [OF v1, of plain_env] t a
    by (simp add: refresh_example_200)
  moreover have "ensure_valid_token plain_env (bearer_manager True) (quiet\<lparr>now := - 20\<rparr>)
       = (Inr ''a0'', bearer_manager True, quiet\<lparr>now := - 20\<rparr>)"
    using ensure_valid_token_cases [OF v2, of plain_env] t
    by simp
  ultimately show ?thesis
    using v1 v2 t a by simp
qed

text \<open>
  C6 as stated fails: the stored bearer credential has expired and carries a refresh
  token, but \<^verbatim>\<open>auto_refresh\<close> is off; \<^verbatim>\<open>ensure_valid_token\<close> raises
  \<^verbatim>\<open>AuthenticationError\<close> and no refresh exchange takes place (the world is as before).
\<close>

theorem ensure_valid_token_counterexample:
  "is_token_valid (bearer_manager False) (quiet\<lparr>now := 100\<rparr>) = Inr False
   \<and> token_info (bearer_manager False)
       = Some \<lparr>access_token = ''a0'', refresh_token = Some ''r0'',
                expires_at = Some (Naive 50), token_type = ''bearer''\<rparr>
   \<and> truthy_str (Some ''r0'')
   \<and> ensure_valid_token plain_env (bearer_manager False) (quiet\<lparr>now := 100\<rparr>)
       = (Inl auth_error, bearer_manager False, quiet\<lparr>now := 100\<rparr>)"
  by (simp add: ensure_example_no_auto valid_example) (simp add: bearer_manager_def)

section \<open>Verification: scheduled refresh\<close>

lemma timers_ok_length: "timers_ok am w \<Longrightarrow> length (pending w) \<le> 1"
proof (cases "pending w")
  case Nil
  then show ?thesis by simp
next
  case (Cons p ps)
  assume ok: "timers_ok am w"
  show ?thesis
  proof (cases ps)
    case Nil
    with Cons show ?thesis by simp
  next
    case (Cons q qs)
    with \<open>pending w = p # ps\<close> ok have "tid p = tid q" "tid p \<noteq> tid q"
      by (auto simp: timers_ok_def)
    then show ?thesis by simp
  qed
qed

lemma cancel_handle:
  assumes "timers_ok am w"
  shows "(case refresh_task am of Some t \<Rightarrow> pending (cancel t w) = [] | None \<Rightarrow> pending w = [])"
proof (cases "refresh_task am")
  case None
  with assms show ?thesis by (cases "pending w") (auto simp: timers_ok_def)
next
  case (Some t)
  with assms have "\<forall>p\<in>set (pending w). tid p = t"
    by (auto simp: timers_ok_def list_all_iff)
  then have "filter (\<lambda>p. tid p \<noteq> t) (pending w) = []"
    by (simp add: filter_empty_conv)
  with Some show ?thesis by (simp add: cancel_def)
qed

text \<open>
  What \<^verbatim>\<open>set_tokens\<close> leaves behind, by the outcome of the scheduling step: a task is
  created exactly if a loop is running, \<^verbatim>\<open>auto_refresh\<close> is on, the refresh token is
  not empty, and the expiry is naive, with five minutes before it a date that lies
  ahead.
\<close>

lemma set_tokens_timers:
  assumes ok: "timers_ok am w" and s: "set_tokens am ti w = (r, am', w')"
  shows "timers_ok am' w'
       \<and> (if loop_running w \<and> auto_refresh am \<and> truthy_str (refresh_token ti)
              \<and> (\<exists>ex. expires_at ti = Some (Naive ex) \<and> datetime_ok (ex - 300)
                       \<and> ex - 300 - now w > 0)
           then pending w' = [\<lparr>tid = next_tid w, armed_at = now w,
                                delay = (case expires_at ti of Some (Naive ex) \<Rightarrow> ex - 300 - now w)\<rparr>]
                \<and> refresh_task am' = Some (next_tid w)
           else pending w' = [] \<and> refresh_task am' = None)
       \<and> (\<not> loop_running w \<and> auto_refresh am \<and> truthy_str (refresh_token ti)
              \<and> (\<exists>ex. expires_at ti = Some (Naive ex) \<and> datetime_ok (ex - 300)
                       \<and> ex - 300 - now w > 0)
            \<longrightarrow> r = Inl PyRuntimeError)"
proof -
  let ?am1 = "am\<lparr>token_info := Some ti\<rparr>"
  obtain am2 w2 where c: "(case refresh_task ?am1 of
                         Some t \<Rightarrow> (?am1\<lparr>refresh_task := None\<rparr>, cancel t w)
                       | None \<Rightarrow> (?am1, w)) = (am2, w2)"
    by (metis surj_pair)
  from cancel_handle [OF ok] c
  have p2: "pending w2 = []" "refresh_task am2 = None" "next_tid w2 = next_tid w"
    "now w2 = now w" "token_info am2 = Some ti" "auto_refresh am2 = auto_refresh am"
    "loop_running w2 = loop_running w"
    by (auto simp: cancel_def split: option.splits)
  obtain r3 am3 w3 where sc:
    "(if auto_refresh am2 \<and> truthy_str (refresh_token ti) \<and> expires_at ti \<noteq> None
      then schedule_refresh am2 w2 else (Inr (), am2, w2)) = (r3, am3, w3)"
    by (metis prod_cases3)
  have eq: "am' = am3 \<and> w' = w3 \<and> (\<forall>e. r3 = Inl e \<longrightarrow> r = Inl e)"
    using s c sc by (auto simp: set_tokens_def Let_def split: sum.splits option.splits)
  let ?sched = "auto_refresh am \<and> truthy_str (refresh_token ti)
              \<and> (\<exists>ex. expires_at ti = Some (Naive ex) \<and> datetime_ok (ex - 300)
                       \<and> ex - 300 - now w > 0)"
  show ?thesis
  proof (cases ?sched)
    case True
    then obtain ex where ex: "expires_at ti = Some (Naive ex)" "datetime_ok (ex - 300)"
      "ex - 300 - now w > 0"
      by blast
    show ?thesis
    proof (cases "loop_running w")
      case True
      with \<open>?sched\<close> ex sc p2
      have "pending w3 = [\<lparr>tid = next_tid w, armed_at = now w, delay = ex - 300 - now w\<rparr>]"
        "refresh_task am3 = Some (next_tid w)" "next_tid w3 = Suc (next_tid w)"
        by (auto simp: schedule_refresh_def create_task_def utcnow_def)
      with True \<open>?sched\<close> ex eq show ?thesis
        by (simp add: timers_ok_def)
    next
      case False
      with \<open>?sched\<close> ex sc p2
      have "pending w3 = []" "refresh_task am3 = None" "r3 = Inl PyRuntimeError"
        by (auto simp: schedule_refresh_def create_task_def utcnow_def)
      with False eq show ?thesis
        by (simp add: timers_ok_def)
    qed
  next
    case False
    have "pending w3 = [] \<and> refresh_task am3 = None"
    proof (cases "expires_at ti")
      case None
      with sc p2 show ?thesis by auto
    next
      case (Some d)
      show ?thesis
      proof (cases d)
        case (Naive ex)
        with Some False sc p2 show ?thesis
          by (auto simp: schedule_refresh_def create_task_def utcnow_def split: if_splits)
      next
        case (Aware ex)
        with Some sc p2 show ?thesis
          by (auto simp: schedule_refresh_def utcnow_def split: if_splits)
      qed
    qed
    with False eq show ?thesis
      by (auto simp: timers_ok_def)
  qed
qed

lemma auto_refresh_task_posts:
  assumes "token_info am = Some ti" and "truthy_str (refresh_token ti)"
  shows "auth_calls (snd (snd (auto_refresh_task en am tm w))) = Suc (auth_calls w)"
proof -
  obtain tr w1 where p: "auth_client_post (wake tm w) = (tr, w1)"
    by (metis surj_pair)
  then have a: "auth_calls w1 = Suc (auth_calls w)"
    by (auto simp: auth_client_post_def wake_def split: prod.splits)
  obtain r2 am2 w2 where x: "refresh_exchange en am ti (wake tm w) = (r2, am2, w2)"
    by (metis prod_cases3)
  have "auth_calls w2 = auth_calls w1"
    using x p set_tokens_frame
    by (fastforce simp: refresh_exchange_def split: sum.splits if_splits prod.splits)
  with a x assms show ?thesis
    by (auto simp: auto_refresh_task_def am_refresh_token_def Let_def
             split: sum.splits option.splits prod.splits)
qed

lemma set_tokens_example_soon:
  "set_tokens (bearer_manager True)
       \<lparr>access_token = ''a1'', refresh_token = Some ''r0'',
        expires_at = Some (Naive 100), token_type = ''bearer''\<rparr> quiet
     = (Inr (),
        (bearer_manager True)
          \<lparr>token_info := Some \<lparr>access_token = ''a1'', refresh_token = Some ''r0'',
                expires_at = Some (Naive 100), token_type = ''bearer''\<rparr>\<rparr>,
        quiet)"
  by (simp add: eval_defs)

lemma set_tokens_example_3600:
  "set_tokens (bearer_manager True)
       \<lparr>access_token = ''a1'', refresh_token = Some ''r0'',
        expires_at = Some (Naive 3600), token_type = ''bearer''\<rparr> quiet
     = (Inr (),
        (bearer_manager True)
          \<lparr>token_info := Some \<lparr>access_token = ''a1'', refresh_token = Some ''r0'',
                expires_at = Some (Naive 3600), token_type = ''bearer''\<rparr>,
           refresh_task := Some 0\<rparr>,
        quiet\<lparr>pending := [\<lparr>tid = 0, armed_at = 0, delay = 3300\<rparr>], next_tid := 1\<rparr>)"
  by (simp add: eval_defs)

lemma set_tokens_example_no_loop:
  "set_tokens (bearer_manager True)
       \<lparr>access_token = ''a1'', refresh_token = Some ''r0'',
        expires_at = Some (Naive 3600), token_type = ''bearer''\<rparr>
       (quiet\<lparr>loop_running := False\<rparr>)
     = (Inl PyRuntimeError,
        (bearer_manager True)
          \<lparr>token_info := Some \<lparr>access_token = ''a1'', refresh_token = Some ''r0'',
                expires_at = Some (Naive 3600), token_type = ''bearer''\<rparr>\<rparr>,
        quiet\<lparr>loop_running := False\<rparr>)"
  by (simp add: eval_defs)

text \<open>
  C8 (amended). Let the pending refresh tasks be accounted for (at most the one the
  manager holds the handle of is pending), and let \<^verbatim>\<open>set_tokens\<close> store a credential
  with a naive \<^verbatim>\<open>expires_at\<close> (the expiry and the clock being dates that
  \<^verbatim>\<open>datetime\<close> can hold). Afterwards the credential is stored, the tasks are accounted
  for again and at most one is pending: the task pending before has been cancelled. If
  an event loop is running, \<^verbatim>\<open>auto_refresh\<close> is on, the credential has a non-empty
  refresh token and \<open>expires_at - 5 min\<close> is still ahead, exactly one task is pending,
  created now with the delay \<open>expires_at - 5 min - now\<close>; its sleep ends at
  \<open>expires_at - 5 min\<close>, and it then calls the refresh endpoint once, without any
  caller. In every other case no task is pending (the delay is not clamped to 0); in
  particular, when these conditions hold but no event loop is running (a synchronous
  caller), \<^verbatim>\<open>set_tokens\<close> raises \<^verbatim>\<open>RuntimeError\<close> with the credential stored and no
  task. For a credential that \<^verbatim>\<open>refresh_token\<close> builds from a response with
  \<^verbatim>\<open>expires_in = s\<close> at the time \<open>t0\<close> of the set, \<open>expires_at = t0 + s\<close>, so that
  the delay is \<open>s - 300\<close>: 3300 seconds for \<open>s = 3600\<close>.
\<close>

theorem set_tokens_schedule:
  assumes "timers_ok am w" and "set_tokens am ti w = (r, am', w')"
    and "expires_at ti = Some (Naive ex)" and "datetime_ok ex" and "datetime_ok (now w)"
  shows "token_info am' = Some ti \<and> timers_ok am' w' \<and> length (pending w') \<le> 1
       \<and> (loop_running w \<and> auto_refresh am \<and> truthy_str (refresh_token ti)
             \<and> ex - 300 - now w > 0 \<longrightarrow>
            pending w' = [\<lparr>tid = next_tid w, armed_at = now w, delay = ex - 300 - now w\<rparr>]
          \<and> refresh_task am' = Some (next_tid w)
          \<and> now (wake \<lparr>tid = next_tid w, armed_at = now w, delay = ex - 300 - now w\<rparr> w')
              = ex - 300
          \<and> pending (wake \<lparr>tid = next_tid w, armed_at = now w, delay = ex - 300 - now w\<rparr> w')
              = []
          \<and> (\<forall>en. auth_calls (snd (snd (auto_refresh_task en am'
                       \<lparr>tid = next_tid w, armed_at = now w, delay = ex - 300 - now w\<rparr> w')))
                     = Suc (auth_calls w')))
       \<and> (\<not> (loop_running w \<and> auto_refresh am \<and> truthy_str (refresh_token ti)
                \<and> ex - 300 - now w > 0) \<longrightarrow>
            pending w' = [] \<and> refresh_task am' = None)
       \<and> (\<not> loop_running w \<and> auto_refresh am \<and> truthy_str (refresh_token ti)
             \<and> ex - 300 - now w > 0 \<longrightarrow>
            r = Inl PyRuntimeError)
       \<and> (\<forall>en prev resp d s.
              new_token_info en prev resp (now w) = Inr ti \<and> body resp = Some (JObj d)
              \<and> map_of d ''expires_in'' = Some (JNum s) \<longrightarrow>
            ex - 300 - now w = s - 300)"
proof -
  note st = set_tokens_timers [OF assms(1,2)]
  note fr = set_tokens_frame [OF assms(2)]
  have rng: "datetime_ok (ex - 300)" if "ex - 300 - now w > 0"
    using that assms(4,5) by (simp add: datetime_ok_def)
  have stored: "token_info am' = Some ti"
    using fr by simp
  have ok: "timers_ok am' w'"
    using st by simp
  have len: "length (pending w') \<le> 1"
    using ok by (rule timers_ok_length)
  have armed: "pending w' = [\<lparr>tid = next_tid w, armed_at = now w, delay = ex - 300 - now w\<rparr>]
          \<and> refresh_task am' = Some (next_tid w)
          \<and> now (wake \<lparr>tid = next_tid w, armed_at = now w, delay = ex - 300 - now w\<rparr> w')
              = ex - 300
          \<and> pending (wake \<lparr>tid = next_tid w, armed_at = now w, delay = ex - 300 - now w\<rparr> w')
              = []
          \<and> (\<forall>en. auth_calls (snd (snd (auto_refresh_task en am'
                       \<lparr>tid = next_tid w, armed_at = now w, delay = ex - 300 - now w\<rparr> w')))
                     = Suc (auth_calls w'))"
    if c: "loop_running w \<and> auto_refresh am \<and> truthy_str (refresh_token ti)
           \<and> ex - 300 - now w > 0"
  proof -
    from st c assms(3) rng
    have p: "pending w' = [\<lparr>tid = next_tid w, armed_at = now w, delay = ex - 300 - now w\<rparr>]"
      and h: "refresh_task am' = Some (next_tid w)"
      by auto
    from p fr c
    have "now (wake \<lparr>tid = next_tid w, armed_at = now w, delay = ex - 300 - now w\<rparr> w')
            = ex - 300"
      and "pending (wake \<lparr>tid = next_tid w, armed_at = now w, delay = ex - 300 - now w\<rparr> w')
            = []"
      by (simp_all add: wake_def)
    moreover from stored c have "token_info am' = Some ti" "truthy_str (refresh_token ti)"
      by simp_all
    then have "\<forall>en. auth_calls (snd (snd (auto_refresh_task en am'
                       \<lparr>tid = next_tid w, armed_at = now w, delay = ex - 300 - now w\<rparr> w')))
                     = Suc (auth_calls w')"
      by (simp add: auto_refresh_task_posts)
    ultimately show ?thesis
      using p h by simp
  qed
  have none: "pending w' = [] \<and> refresh_task am' = None"
    if "\<not> (loop_running w \<and> auto_refresh am \<and> truthy_str (refresh_token ti)
           \<and> ex - 300 - now w > 0)"
    using st that assms(3) by auto
  have noloop: "r = Inl PyRuntimeError"
    if "\<not> loop_running w \<and> auto_refresh am \<and> truthy_str (refresh_token ti)
           \<and> ex - 300 - now w > 0"
    using st that assms(3) rng by auto
  have exin: "ex - 300 - now w = s - 300"
    if "new_token_info en prev resp (now w) = Inr ti \<and> body resp = Some (JObj d)
        \<and> map_of d ''expires_in'' = Some (JNum s)"
    for en prev resp d s
    using that assms(3)
    by (auto simp: new_token_info_def utcnow_plus_def Let_def
             split: option.splits json.splits sum.splits if_splits)
  from stored ok len armed none noloop exin show ?thesis
    by blast
qed

theorem set_tokens_schedule_witness:
  "timers_ok (bearer_manager True) quiet
   \<and> set_tokens (bearer_manager True)
         \<lparr>access_token = ''a1'', refresh_token = Some ''r0'',
          expires_at = Some (Naive 3600), token_type = ''bearer''\<rparr> quiet
       = (Inr (),
          (bearer_manager True)
            \<lparr>token_info := Some \<lparr>access_token = ''a1'', refresh_token = Some ''r0'',
                  expires_at = Some (Naive 3600), token_type = ''bearer''\<rparr>,
             refresh_task := Some 0\<rparr>,
          quiet\<lparr>pending := [\<lparr>tid = 0, armed_at = 0, delay = 3300\<rparr>], next_tid := 1\<rparr>)
   \<and> datetime_ok 3600 \<and> datetime_ok (now quiet) \<and> loop_running quiet
   \<and> auto_refresh (bearer_manager True) \<and> truthy_str (Some ''r0'')
   \<and> (3600::real) - 300 - now quiet > 0
   \<and> new_token_info plain_env
         \<lparr>access_token = ''a0'', refresh_token = Some ''r0'',
          expires_at = Some (Naive 50), token_type = ''bearer''\<rparr>
         (token_reply 200) (now quiet)
       = Inr \<lparr>access_token = ''a1'', refresh_token = Some ''r0'',
               expires_at = Some (Naive 3600), token_type = ''bearer''\<rparr>
   \<and> now (wake \<lparr>tid = 0, armed_at = 0, delay = 3300\<rparr>
              (quiet\<lparr>pending := [\<lparr>tid = 0, armed_at = 0, delay = 3300\<rparr>], next_tid := 1\<rparr>))
       = 3300
   \<and> timers_ok (bearer_manager True) (quiet\<lparr>loop_running := False\<rparr>)
   \<and> fst (set_tokens (bearer_manager True)
         \<lparr>access_token = ''a1'', refresh_token = Some ''r0'',
          expires_at = Some (Naive 3600), token_type = ''bearer''\<rparr>
         (quiet\<lparr>loop_running := False\<rparr>))
       = Inl PyRuntimeError"
proof -
  have ok: "timers_ok (bearer_manager True) quiet"
    and ok': "timers_ok (bearer_manager True) (quiet\<lparr>loop_running := False\<rparr>)"
    by (simp_all add: timers_ok_def quiet_def)
  have ex: "expires_at \<lparr>access_token = ''a1'', refresh_token = Some ''r0'',
               expires_at = Some (Naive 3600), token_type = ''bearer''\<rparr>
             = Some (Naive 3600)"
    by simp
  have a: "auto_refresh (bearer_manager True)"
    by (simp add: bearer_manager_def)
  have q: "now quiet = 0" "next_tid quiet = 0" "loop_running quiet"
    "now (quiet\<lparr>loop_running := False\<rparr>) = 0" "\<not> loop_running (quiet\<lparr>loop_running := False\<rparr>)"
    by (simp_all add: quiet_def)
  have d: "datetime_ok 3600" "datetime_ok 0"
    by (simp_all add: datetime_ok_def)
  have n: "new_token_info plain_env
         \<lparr>access_token = ''a0'', refresh_token = Some ''r0'',
          expires_at = Some (Naive 50), token_type = ''bearer''\<rparr>
         (token_reply 200) (now quiet)
       = Inr \<lparr>access_token = ''a1'', refresh_token = Some ''r0'',
               expires_at = Some (Naive 3600), token_type = ''bearer''\<rparr>"
    by (simp add: new_token_info_def utcnow_plus_def datetime_ok_def timedelta_ok_def
          token_reply_def quiet_def Let_def)
  have "now (wake \<lparr>tid = 0, armed_at = 0, delay = 3300\<rparr>
              (quiet\<lparr>pending := [\<lparr>tid = 0, armed_at = 0, delay = 3300\<rparr>], next_tid := 1\<rparr>))
       = 3300"
    using set_tokens_schedule [OF ok set_tokens_example_3600 ex] a q d
    by simp
  moreover have "(Inl PyRuntimeError :: exc + unit) = Inl PyRuntimeError"
    using set_tokens_schedule [OF ok' set_tokens_example_no_loop ex] a q d
    by simp
  ultimately show ?thesis
    using ok ok' a q d n
    by (simp add: set_tokens_example_3600 set_tokens_example_no_loop)
qed

text \<open>
  C8 as stated fails: inside a running event loop, a bearer credential with a refresh
  token that expires 100 seconds from now is set, with \<^verbatim>\<open>auto_refresh\<close> on. The claim
  arms a timer that fires after \<open>max 0 (100 - 300 - 0) = 0\<close> seconds; the code creates no
  task at all.
\<close>

theorem set_tokens_schedule_counterexample:
  "auto_refresh (bearer_manager True) \<and> loop_running quiet
   \<and> max 0 (100 - 300 - now quiet) = 0
   \<and> set_tokens (bearer_manager True)
         \<lparr>access_token = ''a1'', refresh_token = Some ''r0'',
          expires_at = Some (Naive 100), token_type = ''bearer''\<rparr> quiet
       = (Inr (),
          (bearer_manager True)
            \<lparr>token_info := Some \<lparr>access_token = ''a1'', refresh_token = Some ''r0'',
                  expires_at = Some (Naive 100), token_type = ''bearer''\<rparr>\<rparr>,
          quiet)
   \<and> pending quiet = []"
  by (simp add: set_tokens_example_soon) (simp add: bearer_manager_def quiet_def)

section \<open>Verification: request executor\<close>

lemma raise_timeout: "raise_new TimeoutError no_kwargs =
   SDK \<lparr>err_class = TimeoutError, code = JStr ''TIMEOUT_ERROR'', status = None\<rparr>"
  by (simp add: raise_new_def new_error_def no_kwargs_def base_init_def)

lemma raise_network: "raise_new NetworkError no_kwargs =
   SDK \<lparr>err_class = NetworkError, code = JStr ''NETWORK_ERROR'', status = None\<rparr>"
  by (simp add: raise_new_def new_error_def no_kwargs_def base_init_def)

lemma raise_base: "raise_new BackstageSDKError no_kwargs =
   SDK \<lparr>err_class = BackstageSDKError, code = JStr ''SDK_ERROR'', status = None\<rparr>"
  by (simp add: raise_new_def new_error_def no_kwargs_def base_init_def)

lemma new_error_not_httpx:
  "new_error c kw = Inl e \<Longrightarrow> e = PyTypeError"
  by (auto simp: new_error_def split: if_splits option.splits)

lemma check_response_not_httpx:
  "check_response resp = Inl e \<Longrightarrow> \<not> retry_if_exception_type e"
  by (auto simp: check_response_def create_error_from_response_def retry_if_exception_type_def
        Let_def dest: new_error_not_httpx split: if_splits sum.splits json.splits option.splits)

lemma execute_request_not_httpx:
  assumes "execute_request en am w = (Inl e, am', w')"
  shows "\<not> retry_if_exception_type e"
proof -
  obtain tr w1 where c: "client_request w = (tr, w1)" by (metis surj_pair)
  show ?thesis
  proof (cases tr)
    case (Inl e0)
    with assms c show ?thesis
      by (auto simp: execute_request_def retry_if_exception_type_def raise_timeout raise_network
               split: if_splits)
  next
    case (Inr resp)
    with assms c obtain resp2 where "check_response resp2 = Inl e"
      by (auto simp: execute_request_def split: option.splits if_splits prod.splits)
    then show ?thesis by (rule check_response_not_httpx)
  qed
qed

lemma call_execute_not_httpx:
  assumes "call cb (\<lambda>cb1. execute_request en) am w = (Inl e, cb', am', w')"
  shows "\<not> retry_if_exception_type e"
proof (cases "state cb = Open \<and> \<not> (now w - last_failure_time cb > timeout cb)")
  case True
  with assms show ?thesis
    by (auto simp: call_def raise_circuit_breaker_error retry_if_exception_type_def)
next
  case False
  with assms obtain am1 w1 where "execute_request en am w = (Inl e, am1, w1)"
    by (auto simp: call_def Let_def split: prod.splits sum.splits)
  then show ?thesis by (rule execute_request_not_httpx)
qed

lemma make_request_single_attempt:
  "make_request en n multiplier attempt cb am w = call cb (\<lambda>cb1. execute_request en) am w"
proof -
  obtain r cb' am' w' where c: "call cb (\<lambda>cb1. execute_request en) am w = (r, cb', am', w')"
    by (metis prod_cases4)
  show ?thesis
  proof (cases r)
    case (Inr v)
    with c show ?thesis by (subst make_request.simps) simp
  next
    case (Inl e)
    with c have "\<not> retry_if_exception_type e" by (auto dest: call_execute_not_httpx)
    with c Inl show ?thesis by (subst make_request.simps) simp
  qed
qed

lemma request_no_limiter:
  assumes "rate_limiter c = None"
  shows "request en c w =
           (case call (circuit_breaker c) (\<lambda>cb1. execute_request en) (auth_manager c) w of
              (r, cb', am', w') \<Rightarrow>
                ((case r of Inr v \<Rightarrow> Inr v | Inl e \<Rightarrow> Inl (transform_error e)),
                 c\<lparr>circuit_breaker := cb', rate_limiter := None, auth_manager := am'\<rparr>, w'))"
  using assms
  by (simp add: request_def make_request_single_attempt Let_def split: prod.splits sum.splits)

lemma call_admitted:
  assumes "state cb \<noteq> Open"
  shows "call cb func x w =
           (case func cb x w of
              (Inr v, x', w') \<Rightarrow> (Inr v, (if state cb = HalfOpen then reset cb else cb), x', w')
            | (Inl e, x', w') \<Rightarrow> (Inl e, record_failure cb (now w'), x', w'))"
  using assms by (simp add: call_def)

lemma plain_client_fields:
  "rate_limiter (plain_client am) = None"
  "state (circuit_breaker (plain_client am)) = Closed"
  "auth_manager (plain_client am) = am"
  by (simp_all add: plain_client_def circuit_breaker_init_def)

lemma error_map_cases:
  "error_map st = None \<longleftrightarrow> st \<notin> {400, 401, 403, 404, 429, 500, 502, 503, 504}"
  by (simp add: error_map_def)

lemma create_error_unmapped:
  assumes "error_map st = None"
  shows "\<exists>c. create_error_from_response (JObj d) st
           = Inr \<lparr>err_class = BackstageSDKError, code = c, status = Some st\<rparr>"
  using assms by (simp add: create_error_from_response_def new_error_def base_init_def Let_def)

lemma execute_request_transport_failure:
  assumes "http w (http_calls w) = (d, Inl e)"
  shows "fst (execute_request en am w) =
           Inl (if e = HttpxTimeoutException then raise_new TimeoutError no_kwargs
                else if e = HttpxRequestError then raise_new NetworkError no_kwargs else e)"
  using assms by (simp add: execute_request_def client_request_def)

lemma request_admitted:
  assumes "rate_limiter c = None" "state (circuit_breaker c) \<noteq> Open"
  shows "fst (request en c w) =
           (case fst (execute_request en (auth_manager c) w) of
              Inr v \<Rightarrow> Inr v | Inl e \<Rightarrow> Inl (transform_error e))"
    and "snd (snd (request en c w)) = snd (snd (execute_request en (auth_manager c) w))"
  using assms
  by (auto simp: request_no_limiter call_admitted split: prod.splits sum.splits)

lemma refresh_exchange_frame:
  assumes "refresh_exchange en am prev w = (r, am', w')"
  shows "http_calls w' = http_calls w \<and> auth_calls w' = Suc (auth_calls w)
       \<and> slept w' = slept w \<and> http w' = http w"
proof -
  obtain tr w1 where p: "auth_client_post w = (tr, w1)" by (metis surj_pair)
  then have a: "http_calls w1 = http_calls w \<and> auth_calls w1 = Suc (auth_calls w)
       \<and> slept w1 = slept w \<and> http w1 = http w"
    by (auto simp: auth_client_post_def split: prod.splits)
  have "http_calls w' = http_calls w1 \<and> auth_calls w' = auth_calls w1
       \<and> slept w' = slept w1 \<and> http w' = http w1"
    using assms p set_tokens_frame
    by (fastforce simp: refresh_exchange_def split: sum.splits if_splits prod.splits)
  with a show ?thesis by simp
qed

lemma am_refresh_token_frame:
  assumes "am_refresh_token en am w = (r, am', w')"
  shows "http_calls w' = http_calls w \<and> slept w' = slept w \<and> http w' = http w
       \<and> auth_calls w' = auth_calls w +
            (if \<exists>ti. token_info am = Some ti \<and> truthy_str (refresh_token ti) then 1 else 0)"
proof (cases "\<exists>ti. token_info am = Some ti \<and> truthy_str (refresh_token ti)")
  case False
  with assms show ?thesis
    by (cases "token_info am") (auto simp: am_refresh_token_def)
next
  case True
  then obtain ti where ti: "token_info am = Some ti" "truthy_str (refresh_token ti)" by blast
  obtain r2 am2 w2 where x: "refresh_exchange en am ti w = (r2, am2, w2)" by (metis prod_cases3)
  with assms ti have "w' = w2"
    by (auto simp: am_refresh_token_def Let_def split: sum.splits option.splits)
  with refresh_exchange_frame[OF x] True show ?thesis by simp
qed

lemma check_response_unmapped_example:
  "st \<ge> 400 \<Longrightarrow> error_map st = None \<Longrightarrow>
   check_response \<lparr>status_code = st, body = None, body_text = []\<rparr>
     = Inl (SDK \<lparr>err_class = BackstageSDKError, code = JStr ''HTTP_ERROR'', status = Some st\<rparr>)"
  by (simp add: check_response_def create_error_from_response_def new_error_def base_init_def
        Let_def)

lemma check_response_401_example:
  "check_response \<lparr>status_code = 401, body = None, body_text = []\<rparr> = Inl PyTypeError"
  by (simp add: check_response_def create_error_from_response_def new_error_def error_map_def
        Let_def)

lemma request_501_example:
  "request plain_env (plain_client None) (status_world 501)
     = (Inl (SDK \<lparr>err_class = BackstageSDKError, code = JStr ''HTTP_ERROR'', status = Some 501\<rparr>),
        (plain_client None)
          \<lparr>circuit_breaker := (circuit_breaker_init 5 60 30)\<lparr>failure_count := 1\<rparr>\<rparr>,
        (status_world 501)\<lparr>http_calls := 1\<rparr>)"
proof -
  have e: "execute_request plain_env None (status_world 501)
        = (Inl (SDK \<lparr>err_class = BackstageSDKError, code = JStr ''HTTP_ERROR'',
                     status = Some 501\<rparr>),
           None, (status_world 501)\<lparr>http_calls := 1\<rparr>)"
    by (simp add: execute_request_def client_request_def status_world_def quiet_def
          check_response_unmapped_example error_map_def)
  show ?thesis
    by (simp add: request_no_limiter plain_client_fields call_admitted e transform_error_def)
       (simp add: plain_client_def circuit_breaker_init_def record_failure_def status_world_def
          quiet_def)
qed

lemma request_401_no_manager_example:
  "request plain_env (plain_client None) (status_world 401)
     = (Inl (SDK \<lparr>err_class = BackstageSDKError, code = JStr ''SDK_ERROR'', status = None\<rparr>),
        (plain_client None)
          \<lparr>circuit_breaker := (circuit_breaker_init 5 60 30)\<lparr>failure_count := 1\<rparr>\<rparr>,
        (status_world 401)\<lparr>http_calls := 1\<rparr>)"
proof -
  have e: "execute_request plain_env None (status_world 401)
        = (Inl PyTypeError, None, (status_world 401)\<lparr>http_calls := 1\<rparr>)"
    by (simp add: execute_request_def client_request_def status_world_def quiet_def
          check_response_401_example)
  show ?thesis
    by (simp add: request_no_limiter plain_client_fields call_admitted e transform_error_def
          raise_base)
       (simp add: plain_client_def circuit_breaker_init_def record_failure_def status_world_def
          quiet_def)
qed

lemma refresh_fails_example:
  "am_refresh_token plain_env (bearer_manager True) ((status_world 401)\<lparr>http_calls := Suc 0\<rparr>)
     = (Inl auth_error, bearer_manager True,
        (status_world 401)\<lparr>http_calls := Suc 0, auth_calls := Suc 0\<rparr>)"
  by (simp add: am_refresh_token_def refresh_exchange_def auth_client_post_def bearer_manager_def
        status_world_def quiet_def raise_auth Let_def)

lemma request_401_refresh_fails_example:
  "request plain_env (plain_client (Some (bearer_manager True))) (status_world 401)
     = (Inl (SDK \<lparr>err_class = BackstageSDKError, code = JStr ''SDK_ERROR'', status = None\<rparr>),
        (plain_client (Some (bearer_manager True)))
          \<lparr>circuit_breaker := (circuit_breaker_init 5 60 30)\<lparr>failure_count := 1\<rparr>\<rparr>,
        (status_world 401)\<lparr>http_calls := 1, auth_calls := 1\<rparr>)"
proof -
  have c: "client_request (status_world 401)
        = (Inr \<lparr>status_code = 401, body = None, body_text = []\<rparr>,
           (status_world 401)\<lparr>http_calls := 1\<rparr>)"
    by (simp add: client_request_def status_world_def quiet_def)
  have e: "execute_request plain_env (Some (bearer_manager True)) (status_world 401)
        = (Inl PyTypeError, Some (bearer_manager True),
           (status_world 401)\<lparr>http_calls := 1, auth_calls := 1\<rparr>)"
    by (simp add: execute_request_def c refresh_and_retry_def refresh_fails_example
          check_response_401_example)
  show ?thesis
    by (simp add: request_no_limiter plain_client_fields call_admitted e transform_error_def
          raise_base)
       (simp add: plain_client_def circuit_breaker_init_def record_failure_def status_world_def
          quiet_def)
qed

lemma request_418_example:
  "request plain_env (plain_client None) (status_world 418)
     = (Inl (SDK \<lparr>err_class = BackstageSDKError, code = JStr ''HTTP_ERROR'', status = Some 418\<rparr>),
        (plain_client None)
          \<lparr>circuit_breaker := (circuit_breaker_init 5 60 30)\<lparr>failure_count := 1\<rparr>\<rparr>,
        (status_world 418)\<lparr>http_calls := 1\<rparr>)"
proof -
  have e: "execute_request plain_env None (status_world 418)
        = (Inl (SDK \<lparr>err_class = BackstageSDKError, code = JStr ''HTTP_ERROR'',
                     status = Some 418\<rparr>),
           None, (status_world 418)\<lparr>http_calls := 1\<rparr>)"
    by (simp add: execute_request_def client_request_def status_world_def quiet_def
          check_response_unmapped_example error_map_def)
  show ?thesis
    by (simp add: request_no_limiter plain_client_fields call_admitted e transform_error_def)
       (simp add: plain_client_def circuit_breaker_init_def record_failure_def status_world_def
          quiet_def)
qed

lemma expired_world_first:
  "client_request expired_world
     = (Inr \<lparr>status_code = 401, body = None, body_text = []\<rparr>,
        expired_world\<lparr>http_calls := Suc 0\<rparr>)"
  by (simp add: client_request_def expired_world_def quiet_def)

lemma expired_world_refresh:
  "am_refresh_token plain_env (bearer_manager True) (expired_world\<lparr>http_calls := Suc 0\<rparr>)
     = (Inr \<lparr>access_token = ''a1'', refresh_token = Some ''r0'',
              expires_at = Some (Naive 3600), token_type = ''bearer''\<rparr>,
        (bearer_manager True)
          \<lparr>token_info := Some \<lparr>access_token = ''a1'', refresh_token = Some ''r0'',
                expires_at = Some (Naive 3600), token_type = ''bearer''\<rparr>,
           refresh_task := Some 0\<rparr>,
        expired_world
          \<lparr>http_calls := Suc 0, auth_calls := Suc 0,
           pending := [\<lparr>tid = 0, armed_at = 0, delay = 3300\<rparr>], next_tid := Suc 0\<rparr>)"
  by (simp add: eval_defs expired_world_def)

lemma expired_world_second:
  "client_request
     (expired_world
        \<lparr>http_calls := Suc 0, auth_calls := Suc 0,
         pending := [\<lparr>tid = 0, armed_at = 0, delay = 3300\<rparr>], next_tid := Suc 0\<rparr>)
     = (Inr ok_response,
        expired_world
          \<lparr>http_calls := Suc (Suc 0), auth_calls := Suc 0,
           pending := [\<lparr>tid = 0, armed_at = 0, delay = 3300\<rparr>], next_tid := Suc 0\<rparr>)"
  by (simp add: client_request_def expired_world_def quiet_def)

text \<open>
  C1, the failing input. The API fails twice with a connection error and would answer
  200 to a third call; the client allows 3 attempts. \<^verbatim>\<open>_execute_request\<close> turns the
  \<^verbatim>\<open>httpx.RequestError\<close> into the SDK's \<^verbatim>\<open>NetworkError\<close>, which the retry decorator
  (it retries on \<^verbatim>\<open>httpx\<close> exceptions only) does not retry: \<^verbatim>\<open>request\<close> raises
  \<^verbatim>\<open>NetworkError\<close> after one transport call and no backoff sleep, although
  \<^verbatim>\<open>is_retryable_error\<close> classifies that error as retryable.
\<close>

theorem request_network_failure_not_retried:
  "http flaky_world 0 = (0, Inl HttpxRequestError)
   \<and> http flaky_world 1 = (0, Inl HttpxRequestError)
   \<and> http flaky_world 2 = (0, Inr ok_response)
   \<and> retries (plain_client None) = Some 3
   \<and> request plain_env (plain_client None) flaky_world
       = (Inl (SDK \<lparr>err_class = NetworkError, code = JStr ''NETWORK_ERROR'', status = None\<rparr>),
          (plain_client None)
            \<lparr>circuit_breaker := (circuit_breaker_init 5 60 30)\<lparr>failure_count := 1\<rparr>\<rparr>,
          flaky_world\<lparr>http_calls := 1\<rparr>)
   \<and> slept flaky_world = []
   \<and> is_retryable_error
         (SDK \<lparr>err_class = NetworkError, code = JStr ''NETWORK_ERROR'', status = None\<rparr>)
       = Inr True"
proof -
  have e: "execute_request plain_env None flaky_world
        = (Inl (SDK \<lparr>err_class = NetworkError, code = JStr ''NETWORK_ERROR'', status = None\<rparr>),
           None, flaky_world\<lparr>http_calls := 1\<rparr>)"
    by (simp add: execute_request_def client_request_def flaky_world_def quiet_def raise_network)
  have "request plain_env (plain_client None) flaky_world
       = (Inl (SDK \<lparr>err_class = NetworkError, code = JStr ''NETWORK_ERROR'', status = None\<rparr>),
          (plain_client None)
            \<lparr>circuit_breaker := (circuit_breaker_init 5 60 30)\<lparr>failure_count := 1\<rparr>\<rparr>,
          flaky_world\<lparr>http_calls := 1\<rparr>)"
    by (simp add: request_no_limiter plain_client_fields call_admitted e transform_error_def)
       (simp add: plain_client_def circuit_breaker_init_def record_failure_def flaky_world_def
          quiet_def)
  moreover have "is_retryable_error
         (SDK \<lparr>err_class = NetworkError, code = JStr ''NETWORK_ERROR'', status = None\<rparr>)
       = Inr True"
    by (simp add: is_retryable_error_def retryable_codes_def)
  ultimately show ?thesis
    by (simp add: flaky_world_def quiet_def plain_client_def)
qed

lemma error_map_mapped:
  assumes "error_map st = Some c"
  shows "c \<noteq> BackstageSDKError \<and> st \<ge> 400"
  using assms by (auto simp: error_map_def split: if_splits)

lemma check_response_mapped:
  assumes "error_map (status_code resp) = Some c"
    and "body resp = None \<or> (\<exists>kvs. body resp = Some (JObj kvs))"
  shows "check_response resp = Inl PyTypeError"
proof -
  from assms(2) obtain kvs where
    d: "(case body resp of Some j \<Rightarrow> j | None \<Rightarrow> JObj [(''error'', JStr ''HTTP_ERROR'')])
          = JObj kvs"
    by auto
  from error_map_mapped [OF assms(1)]
  have "create_error_from_response (JObj kvs) (status_code resp) = Inl PyTypeError"
    using assms(1) by (simp add: create_error_from_response_def new_error_def Let_def)
  with d error_map_mapped [OF assms(1)] show ?thesis
    by (simp add: check_response_def Let_def)
qed

text \<open>
  With every status the table knows, and a body that is a JSON object or not JSON at
  all, the caller of \<^verbatim>\<open>request\<close> gets the error that \<^verbatim>\<open>_transform_error\<close> makes of
  the \<^verbatim>\<open>TypeError\<close>: base class, code \<^verbatim>\<open>SDK_ERROR\<close>, no status. (The client has no
  rate limiter, its breaker is not open, and a 401 is not followed by a refresh.)
\<close>

lemma request_mapped_status:
  assumes "rate_limiter c = None" and "state (circuit_breaker c) \<noteq> Open"
    and "auth_manager c = None \<or> status_code resp \<noteq> 401"
    and "http w (http_calls w) = (d, Inr resp)"
    and "error_map (status_code resp) = Some cl"
    and "body resp = None \<or> (\<exists>kvs. body resp = Some (JObj kvs))"
  shows "fst (request en c w)
           = Inl (SDK \<lparr>err_class = BackstageSDKError, code = JStr ''SDK_ERROR'',
                       status = None\<rparr>)"
proof -
  have "fst (execute_request en (auth_manager c) w) = check_response resp"
    using assms(3,4)
    by (auto simp: execute_request_def client_request_def split: option.splits)
  with check_response_mapped [OF assms(5,6)]
  have "fst (execute_request en (auth_manager c) w) = Inl PyTypeError"
    by simp
  with assms(1,2) show ?thesis
    by (simp add: request_admitted transform_error_def raise_base)
qed

lemma request_problem_example:
  assumes "error_map st = Some cl"
  shows "request plain_env (plain_client None) (problem_world st)
     = (Inl (SDK \<lparr>err_class = BackstageSDKError, code = JStr ''SDK_ERROR'', status = None\<rparr>),
        (plain_client None)
          \<lparr>circuit_breaker := (circuit_breaker_init 5 60 30)\<lparr>failure_count := 1\<rparr>\<rparr>,
        (problem_world st)\<lparr>http_calls := 1\<rparr>)"
proof -
  have "check_response
          \<lparr>status_code = st,
           body = Some (JObj [(''error'', JStr ''PROBLEM''),
                              (''message'', JStr ''the request was refused'')]),
           body_text = []\<rparr> = Inl PyTypeError"
    using assms by (intro check_response_mapped [where c = cl]) simp_all
  then have e: "execute_request plain_env None (problem_world st)
        = (Inl PyTypeError, None, (problem_world st)\<lparr>http_calls := 1\<rparr>)"
    by (simp add: execute_request_def client_request_def problem_world_def quiet_def)
  show ?thesis
    by (simp add: request_no_limiter plain_client_fields call_admitted e transform_error_def
          raise_base)
       (simp add: plain_client_def circuit_breaker_init_def record_failure_def
          problem_world_def quiet_def)
qed

text \<open>
  C2, the failing input. The API answers 404 with a JSON error object. The table of
  \<^verbatim>\<open>create_error_from_response\<close> selects \<^verbatim>\<open>NotFoundError\<close>, but the call
  \<^verbatim>\<open>NotFoundError(message=..., code=..., status=..., details=...)\<close> raises
  \<^verbatim>\<open>TypeError\<close>, because \<^verbatim>\<open>NotFoundError.__init__\<close> passes \<^verbatim>\<open>code\<close> and \<^verbatim>\<open>status\<close>
  itself next to the caller's keywords. The caller of \<^verbatim>\<open>request\<close> gets an error of the
  base class with code \<^verbatim>\<open>SDK_ERROR\<close> and no status, not a \<^verbatim>\<open>NotFoundError\<close>; and so it
  is with each of the nine statuses of the table.
\<close>

theorem mapped_status_surfaces_untyped:
  "http (problem_world 404) 0
     = (0, Inr \<lparr>status_code = 404,
                body = Some (JObj [(''error'', JStr ''PROBLEM''),
                                   (''message'', JStr ''the request was refused'')]),
                body_text = []\<rparr>)
   \<and> error_map 404 = Some NotFoundError
   \<and> create_error_from_response
         (JObj [(''error'', JStr ''PROBLEM''), (''message'', JStr ''the request was refused'')])
         404
       = Inl PyTypeError
   \<and> request plain_env (plain_client None) (problem_world 404)
       = (Inl (SDK \<lparr>err_class = BackstageSDKError, code = JStr ''SDK_ERROR'', status = None\<rparr>),
          (plain_client None)
            \<lparr>circuit_breaker := (circuit_breaker_init 5 60 30)\<lparr>failure_count := 1\<rparr>\<rparr>,
          (problem_world 404)\<lparr>http_calls := 1\<rparr>)
   \<and> list_all
         (\<lambda>st. fst (request plain_env (plain_client None) (problem_world st))
                 = Inl (SDK \<lparr>err_class = BackstageSDKError, code = JStr ''SDK_ERROR'',
                             status = None\<rparr>))
         [400, 401, 403, 404, 429, 500, 502, 503, 504]"
proof -
  have m: "error_map 400 = Some ValidationError" "error_map 401 = Some AuthenticationError"
    "error_map 403 = Some AuthorizationError" "error_map 404 = Some NotFoundError"
    "error_map 429 = Some RateLimitError" "error_map 500 = Some ServerError"
    "error_map 502 = Some ServerError" "error_map 503 = Some ServerError"
    "error_map 504 = Some TimeoutError"
    by (simp_all add: error_map_def)
  have "create_error_from_response
         (JObj [(''error'', JStr ''PROBLEM''), (''message'', JStr ''the request was refused'')])
         404
       = Inl PyTypeError"
    by (simp add: create_error_from_response_def new_error_def m Let_def)
  moreover have "http (problem_world 404) 0
     = (0, Inr \<lparr>status_code = 404,
                body = Some (JObj [(''error'', JStr ''PROBLEM''),
                                   (''message'', JStr ''the request was refused'')]),
                body_text = []\<rparr>)"
    by (simp add: problem_world_def quiet_def)
  ultimately show ?thesis
    by (simp add: m request_problem_example [OF m(1)] request_problem_example [OF m(2)]
          request_problem_example [OF m(3)] request_problem_example [OF m(4)]
          request_problem_example [OF m(5)] request_problem_example [OF m(6)]
          request_problem_example [OF m(7)] request_problem_example [OF m(8)]
          request_problem_example [OF m(9)])
qed

text \<open>
  One attempt that gets a 401, in general: \<^verbatim>\<open>refresh_token\<close> runs once; if it
  returns, the HTTP call is made exactly once more and its response is the one
  classified (the original 401 if the second call raises); if it raises, no second HTTP
  call is made and the original 401 is classified. \<^verbatim>\<open>request\<close> makes no further
  attempt. Without auth manager there is no refresh and no second HTTP call.
\<close>

lemma unauthorized_attempt:
  assumes "client_request w = (Inr resp, w1)" and "status_code resp = 401"
    and "am_refresh_token en a w1 = (rr, a', w2)"
    and "client_request w2 = (tr, w3)"
  shows "execute_request en (Some a) w =
           (case rr of
              Inl e \<Rightarrow> (check_response resp, Some a', w2)
            | Inr tok \<Rightarrow>
                (check_response (case tr of Inl e \<Rightarrow> resp | Inr resp' \<Rightarrow> resp'), Some a', w3))
       \<and> auth_calls w2 = auth_calls w +
            (if \<exists>ti. token_info a = Some ti \<and> truthy_str (refresh_token ti) then 1 else 0)
       \<and> auth_calls w3 = auth_calls w2
       \<and> http_calls w2 = Suc (http_calls w) \<and> http_calls w3 = Suc (Suc (http_calls w))
       \<and> (\<forall>c. rate_limiter c = None \<and> state (circuit_breaker c) \<noteq> Open
                \<and> auth_manager c = Some a \<longrightarrow>
              snd (snd (request en c w)) = (case rr of Inl e \<Rightarrow> w2 | Inr tok \<Rightarrow> w3)
              \<and> slept (snd (snd (request en c w))) = slept w)
       \<and> execute_request en None w = (check_response resp, None, w1)
       \<and> auth_calls w1 = auth_calls w"
proof -
  have ex: "execute_request en (Some a) w =
           (case rr of
              Inl e \<Rightarrow> (check_response resp, Some a', w2)
            | Inr tok \<Rightarrow>
                (check_response (case tr of Inl e \<Rightarrow> resp | Inr resp' \<Rightarrow> resp'), Some a', w3))"
    using assms
    by (auto simp: execute_request_def refresh_and_retry_def split: sum.splits)
  have w1: "http_calls w1 = Suc (http_calls w) \<and> auth_calls w1 = auth_calls w
            \<and> slept w1 = slept w"
    using assms(1) by (auto simp: client_request_def split: prod.splits)
  note f = am_refresh_token_frame [OF assms(3)]
  have w3: "http_calls w3 = Suc (http_calls w2) \<and> auth_calls w3 = auth_calls w2
            \<and> slept w3 = slept w2"
    using assms(4) by (auto simp: client_request_def split: prod.splits)
  have rq: "snd (snd (request en c w)) = (case rr of Inl e \<Rightarrow> w2 | Inr tok \<Rightarrow> w3)
              \<and> slept (snd (snd (request en c w))) = slept w"
    if "rate_limiter c = None \<and> state (circuit_breaker c) \<noteq> Open
                \<and> auth_manager c = Some a" for c
    using that ex w1 f w3
    by (cases rr) (simp_all add: request_admitted)
  have none: "execute_request en None w = (check_response resp, None, w1)"
    using assms(1) by (simp add: execute_request_def)
  have a2: "auth_calls w2 = auth_calls w +
            (if \<exists>ti. token_info a = Some ti \<and> truthy_str (refresh_token ti) then 1 else 0)"
    using f w1 by simp
  have h2: "http_calls w2 = Suc (http_calls w)"
    using f w1 by simp
  have h3: "http_calls w3 = Suc (Suc (http_calls w))"
    using w3 h2 by simp
  from ex a2 w3 h2 h3 rq none w1 show ?thesis
    by blast
qed

lemma unauthorized_attempt_example:
  "execute_request plain_env (Some (bearer_manager True)) expired_world
      = (Inr (Json (JObj [(''ok'', JBool True)])),
         Some ((bearer_manager True)
          \<lparr>token_info := Some \<lparr>access_token = ''a1'', refresh_token = Some ''r0'',
                expires_at = Some (Naive 3600), token_type = ''bearer''\<rparr>,
           refresh_task := Some 0\<rparr>),
         expired_world
          \<lparr>http_calls := Suc (Suc 0), auth_calls := Suc 0,
           pending := [\<lparr>tid = 0, armed_at = 0, delay = 3300\<rparr>], next_tid := Suc 0\<rparr>)"
proof -
  have "check_response ok_response = Inr (Json (JObj [(''ok'', JBool True)]))"
    by (simp add: check_response_def ok_response_def)
  then show ?thesis
    using unauthorized_attempt
            [OF expired_world_first _ expired_world_refresh expired_world_second]
    by simp
qed

text \<open>
  C5, the failing input. The client has an auth manager with a bearer credential and a
  refresh token; the API answers 401 and the refresh endpoint cannot be reached.
  \<^verbatim>\<open>refresh_token\<close> is called once and raises \<^verbatim>\<open>AuthenticationError\<close>, which
  \<^verbatim>\<open>_execute_request\<close> swallows; no second HTTP call and no further attempt are made,
  as the claim says. But the original 401 is then classified by
  \<^verbatim>\<open>create_error_from_response\<close>, whose call of \<^verbatim>\<open>AuthenticationError\<close> with
  \<^verbatim>\<open>code=\<close> and \<^verbatim>\<open>status=\<close> raises \<^verbatim>\<open>TypeError\<close>: the caller receives an error of the
  base class with code \<^verbatim>\<open>SDK_ERROR\<close>, not an \<^verbatim>\<open>AuthenticationError\<close>.
\<close>

theorem refresh_failure_surfaces_generic_error:
  "auth_manager (plain_client (Some (bearer_manager True))) = Some (bearer_manager True)
   \<and> http (status_world 401) 0
       = (0, Inr \<lparr>status_code = 401, body = None, body_text = []\<rparr>)
   \<and> auth_http (status_world 401) 0 = (0, Inl HttpxRequestError)
   \<and> am_refresh_token plain_env (bearer_manager True)
         ((status_world 401)\<lparr>http_calls := Suc 0\<rparr>)
       = (Inl auth_error, bearer_manager True,
          (status_world 401)\<lparr>http_calls := Suc 0, auth_calls := Suc 0\<rparr>)
   \<and> error_map 401 = Some AuthenticationError
   \<and> request plain_env (plain_client (Some (bearer_manager True))) (status_world 401)
       = (Inl (SDK \<lparr>err_class = BackstageSDKError, code = JStr ''SDK_ERROR'', status = None\<rparr>),
          (plain_client (Some (bearer_manager True)))
            \<lparr>circuit_breaker := (circuit_breaker_init 5 60 30)\<lparr>failure_count := 1\<rparr>\<rparr>,
          (status_world 401)\<lparr>http_calls := 1, auth_calls := 1\<rparr>)"
  by (simp add: request_401_refresh_fails_example refresh_fails_example)
    (simp add: plain_client_def status_world_def quiet_def error_map_def)

end
